theory Spec2Isabelle
  imports Main
begin

section \<open>The LDAP auth provider (homeassistant/auth/providers/ldap.py)\<close>

text \<open>
  The provider talks to a directory server through the client library ldap3. Neither is
  part of the module. What the library does by itself is written into the model, from its
  interface:
  \<^item> the constructor \<open>ldap3.Connection(..., auto_bind=True)\<close> opens the socket and binds,
    and raises \<open>LDAPBindError\<close> when the bind is not successful;
  \<^item> a connection has the method \<open>start_tls\<close> and no attribute \<open>starttls\<close>;
  \<^item> \<open>conn.search\<close> returns whether the response has an entry, \<open>conn.rebind\<close> whether the
    bind succeeded;
  \<^item> the attributes asked for in a search are all present in an entry
    (\<open>return_empty_attributes\<close>), and \<open>.value\<close> of an attribute is \<open>None\<close> when it has no
    value, the value itself when it has one, and the list of its values otherwise.

  What depends on the server, the network and the arguments is a \<^emph>\<open>directory\<close>: a record of
  the replies to the calls the module makes (what a test double of the library would be
  programmed with). The operations on the directory are recorded, in order, in a trace of
  events, next to the records the module logs at the levels info and error. A Python
  exception is a value of type \<open>exn\<close>; a function that may raise returns the trace so far and
  either the exception (\<open>Inl\<close>) or its value (\<open>Inr\<close>).

  Strings are ASCII strings: \<open>lower\<close>, \<open>py_repr\<close> and \<open>py_str\<close> are Python's \<open>str.lower\<close>,
  \<open>repr\<close> and \<open>str\<close> on them.
\<close>

subsection \<open>Configuration\<close>

definition CONF_BIND_USERNAME :: string where
  "CONF_BIND_USERNAME = ''bind_username''"

definition CONF_BIND_PASSWORD :: string where
  "CONF_BIND_PASSWORD = ''bind_password''"

definition CONF_ENCRYPTION_LDAPS :: string where
  "CONF_ENCRYPTION_LDAPS = ''ldaps''"

definition CONF_ENCRYPTION_NONE :: string where
  "CONF_ENCRYPTION_NONE = ''none''"

definition CONF_ENCRYPTION_STARTTLS :: string where
  "CONF_ENCRYPTION_STARTTLS = ''starttls''"

text \<open>
  \<open>self.config\<close> after validation by \<open>CONFIG_SCHEMA\<close>: every key is required or has a
  default, except \<open>bind_username\<close> and \<open>bind_password\<close>, which are optional without one.
\<close>

record config =
  active_directory :: bool
  allowed_group_dns :: "string list"
  base_dn :: string
  bind_as_user :: bool
  bind_username :: "string option"
  bind_password :: "string option"
  validate_certificates :: bool
  encryption :: string
  port :: int
  server :: string
  timeout :: int
  username_attribute :: string

subsection \<open>Exceptions\<close>

text \<open>
  The exceptions of ldap3 that matter to the module: \<open>LDAPBindError\<close>, the one class it
  catches, and classes that are not subclasses of it: \<open>LDAPInvalidPortError\<close>, raised by
  the constructor of a server, and the exceptions of the socket.
\<close>

datatype ldap3_exception =
    LDAPBindError
  | LDAPInvalidPortError
  | LDAPSocketOpenError
  | LDAPSocketReceiveError

text \<open>
  \<open>InvalidAuthError\<close> carries its message, \<open>None\<close> when raised without one. \<open>KeyError\<close>,
  \<open>TypeError\<close> and \<open>AttributeError\<close> are Python's own.
\<close>

datatype exn =
    InvalidAuthError "string option"
  | LdapError
  | KeyError string
  | TypeError
  | AttributeError
  | Ldap3 ldap3_exception

subsection \<open>The directory client\<close>

datatype tls_validate = Tls_default | CERT_NONE

datatype authentication = NTLM

text \<open>The arguments of \<open>ldap3.Server(...)\<close>; \<open>get_info\<close> is always \<open>ldap3.ALL\<close>.\<close>

record ldap3_server =
  host :: string
  server_port :: int
  use_ssl :: bool
  tls :: tls_validate
  connect_timeout :: int

text \<open>
  A search result entry, as far as the module reads it: \<open>entry_dn\<close> and, for each attribute
  asked for, the list of its values (\<open>Attribute.values\<close>), empty when the directory holds
  none.
\<close>

record entry =
  entry_dn :: string
  attribute_values :: "string \<Rightarrow> string list"

text \<open>What \<open>.value\<close> of an attribute can be: \<open>None\<close>, a string or a list of strings.\<close>

datatype py_value = Py_None | Py_str string | Py_list "string list"

definition attribute_value :: "string list \<Rightarrow> py_value" where
  "attribute_value vs = (case vs of [] \<Rightarrow> Py_None | [v] \<Rightarrow> Py_str v | _ \<Rightarrow> Py_list vs)"

text \<open>
  The operations on the directory:
  \<^item> \<open>Connection srv user password authentication\<close>: \<open>ldap3.Connection(srv, user=...,
    password=..., [authentication=...,] auto_bind=True)\<close>, which opens the socket and binds;
  \<^item> \<open>Search base filter size_limit time_limit attributes\<close>: \<open>conn.search(...)\<close>;
  \<^item> \<open>Rebind user password\<close>: \<open>conn.rebind(user=..., password=...)\<close>.
\<close>

datatype call =
    Connection ldap3_server string string "authentication option"
  | Search string string nat int "string list"
  | Rebind string string

text \<open>
  The records logged at info and error level, with their arguments as \<open>\%s\<close> prints them
  (debug records print library objects and are left out):
  \<^item> \<open>Search_no_results\<close>: error, "LDAP self search returned no results.";
  \<^item> \<open>Found_user display_name uid\<close>: info, "Found user \%s (\%s)";
  \<^item> \<open>Member_of uid user_groups\<close>: info, "User \%s is member of \%s";
  \<^item> \<open>Error_in_bind\<close>: error, "Error in bind \%s" with \<open>conn.result\<close>;
  \<^item> \<open>Bind_failed\<close>: error, "Bind failed: \%s" with the exception.
\<close>

datatype log_record =
    Search_no_results
  | Found_user string string
  | Member_of string string
  | Error_in_bind
  | Bind_failed

datatype event = Call call | Log log_record

text \<open>
  The replies. The constructor of a server returns (\<open>None\<close>) or raises: it reads a scheme
  and a port out of the host string and refuses a port out of range. The constructor of a
  connection with \<open>auto_bind\<close> returns or raises. \<open>search\<close> leaves the entries in
  \<open>conn.entries\<close> and returns whether there is one, or raises. \<open>rebind\<close> returns a truth
  value or raises.
\<close>

record directory =
  on_server :: "ldap3_server \<Rightarrow> ldap3_exception option"
  on_connection :: "ldap3_server \<Rightarrow> string \<Rightarrow> string \<Rightarrow> authentication option
                      \<Rightarrow> ldap3_exception option"
  on_search :: "string \<Rightarrow> string \<Rightarrow> nat \<Rightarrow> int \<Rightarrow> string list \<Rightarrow> ldap3_exception + entry list"
  on_rebind :: "string \<Rightarrow> string \<Rightarrow> ldap3_exception + bool"

subsection \<open>Effects: a trace of events and an exception or a value\<close>

type_synonym 'a outcome = "event list \<times> (exn + 'a)"

definition return :: "'a \<Rightarrow> 'a outcome" where
  "return x = ([], Inr x)"

definition raise :: "exn \<Rightarrow> 'a outcome" where
  "raise e = ([], Inl e)"

definition emit :: "event \<Rightarrow> unit outcome" where
  "emit ev = ([ev], Inr ())"

text \<open>A computation without events that may raise.\<close>

definition quietly :: "exn + 'a \<Rightarrow> 'a outcome" where
  "quietly r = ([], r)"

text \<open>Sequencing: the second statement runs only if the first did not raise.\<close>

definition then_do :: "'a outcome \<Rightarrow> ('a \<Rightarrow> 'b outcome) \<Rightarrow> 'b outcome" where
  "then_do m f =
     (case m of
        (tr, Inl e) \<Rightarrow> (tr, Inl e)
      | (tr, Inr x) \<Rightarrow> (case f x of (tr', r) \<Rightarrow> (tr @ tr', r)))"

text \<open>\<open>self.config[key]\<close> for an optional key, and \<open>d[key]\<close> for a dictionary.\<close>

definition dict_get :: "(string \<rightharpoonup> 'v) \<Rightarrow> string \<Rightarrow> 'v outcome" where
  "dict_get m k = (case m k of None \<Rightarrow> raise (KeyError k) | Some v \<Rightarrow> return v)"

definition config_get :: "'v option \<Rightarrow> string \<Rightarrow> 'v outcome" where
  "config_get field k = (case field of None \<Rightarrow> raise (KeyError k) | Some v \<Rightarrow> return v)"

definition lib_reply :: "call \<Rightarrow> ldap3_exception + 'a \<Rightarrow> 'a outcome" where
  "lib_reply c r = ([Call c], case r of Inl e \<Rightarrow> Inl (Ldap3 e) | Inr x \<Rightarrow> Inr x)"

definition new_server :: "directory \<Rightarrow> ldap3_server \<Rightarrow> ldap3_server outcome" where
  "new_server d srv =
     (case on_server d srv of Some e \<Rightarrow> raise (Ldap3 e) | None \<Rightarrow> return srv)"

definition new_connection ::
  "directory \<Rightarrow> ldap3_server \<Rightarrow> string \<Rightarrow> string \<Rightarrow> authentication option \<Rightarrow> unit outcome" where
  "new_connection d srv user password auth =
     lib_reply (Connection srv user password auth)
       (case on_connection d srv user password auth of Some e \<Rightarrow> Inl e | None \<Rightarrow> Inr ())"

text \<open>
  \<open>conn.starttls()\<close>: the connection has no attribute of that name (its method is
  \<open>start_tls\<close>), so reading it raises \<open>AttributeError\<close> and nothing is called.
\<close>

definition conn_starttls :: "unit outcome" where
  "conn_starttls = raise AttributeError"

definition conn_search ::
  "directory \<Rightarrow> string \<Rightarrow> string \<Rightarrow> nat \<Rightarrow> int \<Rightarrow> string list \<Rightarrow> entry list outcome" where
  "conn_search d base flt size_limit time_limit attributes =
     lib_reply (Search base flt size_limit time_limit attributes)
       (on_search d base flt size_limit time_limit attributes)"

definition conn_rebind :: "directory \<Rightarrow> string \<Rightarrow> string \<Rightarrow> bool outcome" where
  "conn_rebind d user password = lib_reply (Rebind user password) (on_rebind d user password)"

subsection \<open>Strings and values\<close>

definition lower_char :: "char \<Rightarrow> char" where
  "lower_char c =
     (case map_of (zip ''ABCDEFGHIJKLMNOPQRSTUVWXYZ'' ''abcdefghijklmnopqrstuvwxyz'') c of
        Some l \<Rightarrow> l
      | None \<Rightarrow> c)"

definition lower :: "string \<Rightarrow> string" where
  "lower s = map lower_char s"

definition is_ascii :: "string \<Rightarrow> bool" where
  "is_ascii s = list_all (\<lambda>c. (of_char c :: nat) < 128) s"

text \<open>
  \<open>repr\<close> of a string: in single quotes, or in double quotes when it has a single quote and
  no double quote; the quote and the backslash are escaped, and so are the control
  characters.
\<close>

definition hex_digit :: "nat \<Rightarrow> char" where
  "hex_digit n = ''0123456789abcdef'' ! (n mod 16)"

definition repr_char :: "char \<Rightarrow> char \<Rightarrow> string" where
  "repr_char quote c =
     (if c = quote \<or> c = CHR 0x5C then [CHR 0x5C, c]
      else if c = CHR 0x09 then [CHR 0x5C, CHR ''t'']
      else if c = CHR 0x0A then [CHR 0x5C, CHR ''n'']
      else if c = CHR 0x0D then [CHR 0x5C, CHR ''r'']
      else if (of_char c :: nat) < 32 \<or> (of_char c :: nat) = 127
      then [CHR 0x5C, CHR ''x'', hex_digit (of_char c div 16), hex_digit (of_char c)]
      else [c])"

definition py_repr :: "string \<Rightarrow> string" where
  "py_repr s =
     (let quote = (if CHR 0x27 \<in> set s \<and> CHR 0x22 \<notin> set s then CHR 0x22 else CHR 0x27)
      in quote # concat (map (repr_char quote) s) @ [quote])"

fun join_comma :: "string list \<Rightarrow> string" where
  "join_comma [] = []"
| "join_comma [x] = x"
| "join_comma (x # y # ys) = x @ '', '' @ join_comma (y # ys)"

text \<open>\<open>str\<close> of a value, as \<open>\%s\<close> and \<open>str.format\<close> print it.\<close>

definition py_str :: "py_value \<Rightarrow> string" where
  "py_str v =
     (case v of
        Py_None \<Rightarrow> ''None''
      | Py_str s \<Rightarrow> s
      | Py_list xs \<Rightarrow> ''['' @ join_comma (map py_repr xs) @ '']'')"

text \<open>
  The elements of \<open>for g in v\<close>: \<open>None\<close> is not iterable, a string gives its characters, a
  list its elements.
\<close>

definition iterate :: "py_value \<Rightarrow> exn + string list" where
  "iterate v =
     (case v of
        Py_None \<Rightarrow> Inl TypeError
      | Py_str s \<Rightarrow> Inr (map (\<lambda>c. [c]) s)
      | Py_list xs \<Rightarrow> Inr xs)"

subsection \<open>async_validate_login\<close>

text \<open>
  The loop of the group check, from the value \<open>is_member\<close> of \<open>member\<close> before it. The list
  comprehension iterates \<open>user_groups\<close> in every round:
  \<^verbatim>\<open>
  member = False
  for group in self.config[CONF_ALLOWED_GROUP_DNS]:
      if group.lower() in [g.lower() for g in user_groups]:
          member = True
  \<close>
\<close>

fun member_loop :: "string list \<Rightarrow> py_value \<Rightarrow> bool \<Rightarrow> exn + bool" where
  "member_loop [] user_groups is_member = Inr is_member"
| "member_loop (allowed_group # rest) user_groups is_member =
     (case iterate user_groups of
        Inl e \<Rightarrow> Inl e
      | Inr gs \<Rightarrow>
          member_loop rest user_groups
            (if lower allowed_group \<in> set (map lower gs) then True else is_member))"

definition not_a_member_message :: "py_value \<Rightarrow> string" where
  "not_a_member_message uid =
     ''User '' @ py_str uid @ '' is not a member of any of the required groups''"

text \<open>
  Lines 161 to 179: the check of the group membership of the found entry, skipped when the
  allow-list is empty (an empty list is false in Python).
\<close>

definition check_group_membership :: "config \<Rightarrow> py_value \<Rightarrow> entry \<Rightarrow> unit outcome" where
  "check_group_membership cfg uid entry0 =
     (if allowed_group_dns cfg \<noteq> []
      then (let user_groups = attribute_value (attribute_values entry0 ''memberOf'') in
            then_do (emit (Log (Member_of (py_str uid) (py_str user_groups)))) (\<lambda>_.
            then_do (quietly (member_loop (allowed_group_dns cfg) user_groups False)) (\<lambda>member.
            if \<not> member
            then raise (InvalidAuthError (Some (not_a_member_message uid)))
            else return ())))
      else return ())"

text \<open>
  Lines 181 to 186: \<open>if not bind_as_user and not conn.rebind(...)\<close>. The conjunction is
  evaluated left to right, so \<open>rebind\<close> is called only when \<open>bind_as_user\<close> is false.
\<close>

definition check_credentials :: "config \<Rightarrow> directory \<Rightarrow> string \<Rightarrow> entry \<Rightarrow> unit outcome" where
  "check_credentials cfg d password entry0 =
     (if \<not> bind_as_user cfg
      then then_do (conn_rebind d (entry_dn entry0) password) (\<lambda>ok.
             if \<not> ok
             then then_do (emit (Log Error_in_bind)) (\<lambda>_.
                    raise (InvalidAuthError (Some ''Invalid LDAP credentials provided'')))
             else return ())
      else return ())"

text \<open>Lines 155 to 186: what is done with \<open>conn.entries[0]\<close>.\<close>

definition check_entry ::
  "config \<Rightarrow> directory \<Rightarrow> string \<Rightarrow> string \<Rightarrow> entry \<Rightarrow> unit outcome" where
  "check_entry cfg d password username_attr entry0 =
     (let uid = attribute_value (attribute_values entry0 username_attr);
          display_name = attribute_value (attribute_values entry0 ''displayName'')
      in
      then_do (emit (Log (Found_user (py_str display_name) (py_str uid)))) (\<lambda>_.
      then_do (check_group_membership cfg uid entry0) (\<lambda>_.
      check_credentials cfg d password entry0)))"

text \<open>
  Lines 91 to 104: the \<open>ldap3.Tls\<close> object and the arguments of \<open>ldap3.Server(...)\<close>, and
  the construction of the server from them.
\<close>

definition server_arguments :: "config \<Rightarrow> ldap3_server" where
  "server_arguments cfg =
     (let tls = (if \<not> validate_certificates cfg then CERT_NONE else Tls_default);
          enc = encryption cfg
      in \<lparr>host = server cfg, server_port = port cfg, use_ssl = (enc = CONF_ENCRYPTION_LDAPS),
          tls = tls, connect_timeout = timeout cfg\<rparr>)"

definition make_server :: "config \<Rightarrow> directory \<Rightarrow> ldap3_server outcome" where
  "make_server cfg d = new_server d (server_arguments cfg)"

text \<open>
  Lines 106 to 112: the user and the password of the bind. With \<open>bind_as_user\<close> they are
  the configured \<open>bind_username\<close> and \<open>bind_password\<close>, otherwise those of the request.
\<close>

definition bind_credentials :: "config \<Rightarrow> string \<Rightarrow> string \<Rightarrow> (string \<times> string) outcome" where
  "bind_credentials cfg username password =
     (let as_user = bind_as_user cfg in
      then_do (if as_user then config_get (bind_username cfg) CONF_BIND_USERNAME
               else return username) (\<lambda>bind_user.
      then_do (if as_user then config_get (bind_password cfg) CONF_BIND_PASSWORD
               else return password) (\<lambda>bind_pw.
      return (bind_user, bind_pw))))"

text \<open>Lines 116 to 120: the local variable \<open>username_attr\<close>.\<close>

definition username_attr :: "config \<Rightarrow> string" where
  "username_attr cfg =
     (if active_directory cfg then ''sAMAccountName'' else username_attribute cfg)"

text \<open>Lines 121 to 135: the connection, opened and bound by its constructor.\<close>

definition bind_connection ::
  "config \<Rightarrow> directory \<Rightarrow> ldap3_server \<Rightarrow> string \<Rightarrow> string \<Rightarrow> unit outcome" where
  "bind_connection cfg d srv bind_user bind_pw =
     (let base = base_dn cfg in
      if active_directory cfg
      then new_connection d srv bind_user bind_pw (Some NTLM)
      else new_connection d srv (username_attr cfg @ ''='' @ bind_user @ '','' @ base)
             bind_pw None)"

text \<open>Lines 137 to 140: the upgrade with START_TLS.\<close>

definition upgrade_connection :: "config \<Rightarrow> unit outcome" where
  "upgrade_connection cfg =
     (if encryption cfg = CONF_ENCRYPTION_STARTTLS then conn_starttls else return ())"

text \<open>Lines 146 to 152: the search; its value here is \<open>conn.entries\<close> after the call.\<close>

definition search_person :: "config \<Rightarrow> directory \<Rightarrow> entry list outcome" where
  "search_person cfg d =
     conn_search d (base_dn cfg) ''(objectclass=person)'' 1 (timeout cfg)
       [username_attr cfg, ''displayName'', ''memberOf'']"

text \<open>
  The body of the \<open>try\<close> statement, lines 91 to 186. \<open>conn.search\<close> is false exactly when
  \<open>conn.entries\<close> is empty, so the test of its result and the read of \<open>conn.entries[0]\<close>
  are one case distinction on the entries.
\<close>

definition validate_login_try :: "config \<Rightarrow> directory \<Rightarrow> string \<Rightarrow> string \<Rightarrow> unit outcome" where
  "validate_login_try cfg d username password =
     then_do (make_server cfg d) (\<lambda>srv.
     then_do (bind_credentials cfg username password) (\<lambda>(bind_user, bind_pw).
     then_do (bind_connection cfg d srv bind_user bind_pw) (\<lambda>_.
     then_do (upgrade_connection cfg) (\<lambda>_.
     then_do (search_person cfg d) (\<lambda>entries.
     case entries of
       [] \<Rightarrow> then_do (emit (Log Search_no_results)) (\<lambda>_. raise LdapError)
     | entry0 # _ \<Rightarrow> check_entry cfg d password (username_attr cfg) entry0)))))"

text \<open>The \<open>except ldap3.core.exceptions.LDAPBindError\<close> clause around the body.\<close>

definition async_validate_login :: "config \<Rightarrow> directory \<Rightarrow> string \<Rightarrow> string \<Rightarrow> unit outcome" where
  "async_validate_login cfg d username password =
     (case validate_login_try cfg d username password of
        (tr, Inl (Ldap3 LDAPBindError)) \<Rightarrow> (tr @ [Log Bind_failed], Inl (InvalidAuthError None))
      | (tr, r) \<Rightarrow> (tr, r))"

subsection \<open>async_get_or_create_credentials\<close>

text \<open>
  A credential of the host: its identifier and its \<open>data\<close> dictionary. \<open>creds\<close> below is
  what \<open>self.async_credentials()\<close> returns.
\<close>

record credentials =
  cred_id :: string
  data :: "string \<rightharpoonup> string"

text \<open>
  The result is a credential of the store, or the call \<open>self.async_create_credentials(data)\<close>
  of the base class, recorded with its argument.
\<close>

datatype credentials_result =
    Existing credentials
  | Create_credentials "string \<rightharpoonup> string"

fun find_credentials :: "credentials list \<Rightarrow> string \<Rightarrow> exn + credentials option" where
  "find_credentials [] username = Inr None"
| "find_credentials (credential # rest) username =
     (case data credential ''username'' of
        None \<Rightarrow> Inl (KeyError ''username'')
      | Some u \<Rightarrow> if u = username then Inr (Some credential) else find_credentials rest username)"

definition async_get_or_create_credentials ::
  "credentials list \<Rightarrow> (string \<rightharpoonup> string) \<Rightarrow> exn + credentials_result" where
  "async_get_or_create_credentials creds flow_result =
     (case flow_result ''username'' of
        None \<Rightarrow> Inl (KeyError ''username'')
      | Some username \<Rightarrow>
          (case find_credentials creds username of
             Inl e \<Rightarrow> Inl e
           | Inr (Some credential) \<Rightarrow> Inr (Existing credential)
           | Inr None \<Rightarrow> Inr (Create_credentials [''username'' \<mapsto> username])))"

subsection \<open>LdapLoginFlow.async_step_init\<close>

datatype schema_type = Str

text \<open>
  The step returns what the base class builds from one of two calls:
  \<open>self.async_finish(user_input)\<close> or \<open>self.async_show_form(step_id, data_schema, errors)\<close>.
  The schema and the errors are dictionaries built in the step, kept as association lists.
\<close>

datatype flow_result =
    Finish "string \<rightharpoonup> string"
  | Show_form string "(string \<times> schema_type) list" "(string \<times> string) list"

definition schema :: "(string \<times> schema_type) list" where
  "schema = [(''username'', Str), (''password'', Str)]"

text \<open>The \<open>try\<close> statement of the step: the errors dictionary after it.\<close>

definition step_init_try ::
  "config \<Rightarrow> directory \<Rightarrow> (string \<rightharpoonup> string) \<Rightarrow> (string \<times> string) list outcome" where
  "step_init_try cfg d user_input =
     then_do (dict_get user_input ''username'') (\<lambda>username.
     then_do (dict_get user_input ''password'') (\<lambda>password.
     case async_validate_login cfg d username password of
       (tr, Inl (InvalidAuthError _)) \<Rightarrow> (tr, Inr [(''base'', ''invalid_auth'')])
     | (tr, Inl LdapError) \<Rightarrow> (tr, Inr [(''base'', ''error'')])
     | (tr, Inl e) \<Rightarrow> (tr, Inl e)
     | (tr, Inr _) \<Rightarrow> (tr, Inr [])))"

definition async_step_init ::
  "config \<Rightarrow> directory \<Rightarrow> (string \<rightharpoonup> string) option \<Rightarrow> flow_result outcome" where
  "async_step_init cfg d user_input =
     (case user_input of
        None \<Rightarrow> return (Show_form ''init'' schema [])
      | Some ui \<Rightarrow>
          then_do (step_init_try cfg d ui) (\<lambda>errors.
          if errors = [] then return (Finish (ui(''password'' := None)))
          else return (Show_form ''init'' schema errors)))"

subsection \<open>The exceptions the module catches\<close>

text \<open>
  An exception raised in the body of \<open>async_validate_login\<close> is caught when one of the
  \<open>except\<close> clauses of the module handles it: \<open>LDAPBindError\<close> in \<open>async_validate_login\<close>
  (line 188), \<open>InvalidAuthError\<close> and \<open>LdapError\<close> in \<open>async_step_init\<close> (lines 229 and 232).
\<close>

fun caught :: "exn \<Rightarrow> bool" where
  "caught (InvalidAuthError m) = True"
| "caught LdapError = True"
| "caught (Ldap3 LDAPBindError) = True"
| "caught (Ldap3 _) = False"
| "caught (KeyError k) = False"
| "caught TypeError = False"
| "caught AttributeError = False"

subsection \<open>Example configurations, directories and stores\<close>

text \<open>
  A provider that binds with a configured account over LDAPS, with no group restriction,
  and variants of it.
\<close>

definition example_config :: config where
  "example_config =
     \<lparr>active_directory = False, allowed_group_dns = [], base_dn = ''dc=example,dc=com'',
      bind_as_user = True, bind_username = Some ''svc'', bind_password = Some ''svc-secret'',
      validate_certificates = True, encryption = ''ldaps'', port = 636,
      server = ''ldap.example.com'', timeout = 10, username_attribute = ''uid''\<rparr>"

definition end_user_config :: config where
  "end_user_config = example_config\<lparr>bind_as_user := False\<rparr>"

definition starttls_config :: config where
  "starttls_config = example_config\<lparr>encryption := ''starttls'', port := 389\<rparr>"

definition admins_config :: config where
  "admins_config = example_config\<lparr>allowed_group_dns := [''cn=admins,dc=example,dc=com'']\<rparr>"

definition staff_config :: config where
  "staff_config = example_config\<lparr>allowed_group_dns := [''CN=Staff,DC=Example,DC=Com'']\<rparr>"

definition end_user_admins_config :: config where
  "end_user_admins_config =
     end_user_config\<lparr>allowed_group_dns := [''cn=admins,dc=example,dc=com'']\<rparr>"

definition out_of_range_config :: config where
  "out_of_range_config = example_config\<lparr>port := 65535\<rparr>"

definition example_server :: ldap3_server where
  "example_server =
     \<lparr>host = ''ldap.example.com'', server_port = 636, use_ssl = True, tls = Tls_default,
      connect_timeout = 10\<rparr>"

definition starttls_server :: ldap3_server where
  "starttls_server =
     \<lparr>host = ''ldap.example.com'', server_port = 389, use_ssl = False, tls = Tls_default,
      connect_timeout = 10\<rparr>"

text \<open>
  Three persons: alice, a member of staff; dave, a member of staff and of the operators;
  carol, a member of no group.
\<close>

definition alice_values :: "string \<Rightarrow> string list" where
  "alice_values a =
     (if a = ''uid'' then [''alice'']
      else if a = ''displayName'' then [''Alice Example'']
      else if a = ''memberOf'' then [''cn=staff,dc=example,dc=com'']
      else [])"

definition alice_entry :: entry where
  "alice_entry =
     \<lparr>entry_dn = ''uid=alice,dc=example,dc=com'', attribute_values = alice_values\<rparr>"

definition dave_values :: "string \<Rightarrow> string list" where
  "dave_values a =
     (if a = ''uid'' then [''dave'']
      else if a = ''displayName'' then [''Dave Example'']
      else if a = ''memberOf''
      then [''cn=staff,dc=example,dc=com'', ''cn=operators,dc=example,dc=com'']
      else [])"

definition dave_entry :: entry where
  "dave_entry =
     \<lparr>entry_dn = ''uid=dave,dc=example,dc=com'', attribute_values = dave_values\<rparr>"

definition carol_values :: "string \<Rightarrow> string list" where
  "carol_values a =
     (if a = ''uid'' then [''carol'']
      else if a = ''displayName'' then [''Carol Example'']
      else [])"

definition carol_entry :: entry where
  "carol_entry =
     \<lparr>entry_dn = ''uid=carol,dc=example,dc=com'', attribute_values = carol_values\<rparr>"

text \<open>
  A directory in which the search finds alice. It knows the passwords of alice, of bob
  and of the account \<open>svc\<close> of the provider, and its port is in the range that the
  constructor of a server accepts.
\<close>

definition accepts :: "string \<Rightarrow> string \<Rightarrow> bool" where
  "accepts user password =
     ((user = ''uid=svc,dc=example,dc=com'' \<and> password = ''svc-secret'') \<or>
      (user = ''uid=alice,dc=example,dc=com'' \<and> password = ''alice-secret'') \<or>
      (user = ''uid=bob,dc=example,dc=com'' \<and> password = ''bob-secret''))"

definition example_on_server :: "ldap3_server \<Rightarrow> ldap3_exception option" where
  "example_on_server srv =
     (if 0 \<le> server_port srv \<and> server_port srv < 65535 then None
      else Some LDAPInvalidPortError)"

definition example_on_connection ::
  "ldap3_server \<Rightarrow> string \<Rightarrow> string \<Rightarrow> authentication option \<Rightarrow> ldap3_exception option" where
  "example_on_connection srv user password auth =
     (if accepts user password then None else Some LDAPBindError)"

definition example_on_search ::
  "string \<Rightarrow> string \<Rightarrow> nat \<Rightarrow> int \<Rightarrow> string list \<Rightarrow> ldap3_exception + entry list" where
  "example_on_search base flt size_limit time_limit attributes =
     (if base = ''dc=example,dc=com'' \<and> flt = ''(objectclass=person)'' then Inr [alice_entry]
      else Inr [])"

definition example_on_rebind :: "string \<Rightarrow> string \<Rightarrow> ldap3_exception + bool" where
  "example_on_rebind user password = Inr (accepts user password)"

definition example_directory :: directory where
  "example_directory =
     \<lparr>on_server = example_on_server, on_connection = example_on_connection,
      on_search = example_on_search, on_rebind = example_on_rebind\<rparr>"

text \<open>The same server when the search finds dave, and when it finds carol.\<close>

definition dave_on_search ::
  "string \<Rightarrow> string \<Rightarrow> nat \<Rightarrow> int \<Rightarrow> string list \<Rightarrow> ldap3_exception + entry list" where
  "dave_on_search base flt size_limit time_limit attributes = Inr [dave_entry]"

definition dave_directory :: directory where
  "dave_directory = example_directory\<lparr>on_search := dave_on_search\<rparr>"

definition carol_on_search ::
  "string \<Rightarrow> string \<Rightarrow> nat \<Rightarrow> int \<Rightarrow> string list \<Rightarrow> ldap3_exception + entry list" where
  "carol_on_search base flt size_limit time_limit attributes = Inr [carol_entry]"

definition carol_directory :: directory where
  "carol_directory = example_directory\<lparr>on_search := carol_on_search\<rparr>"

text \<open>The same server with no person under the base DN.\<close>

definition no_person_on_search ::
  "string \<Rightarrow> string \<Rightarrow> nat \<Rightarrow> int \<Rightarrow> string list \<Rightarrow> ldap3_exception + entry list" where
  "no_person_on_search base flt size_limit time_limit attributes = Inr []"

definition no_person_directory :: directory where
  "no_person_directory = example_directory\<lparr>on_search := no_person_on_search\<rparr>"

text \<open>A server that cannot be reached: opening the socket fails.\<close>

definition unreachable_on_connection ::
  "ldap3_server \<Rightarrow> string \<Rightarrow> string \<Rightarrow> authentication option \<Rightarrow> ldap3_exception option" where
  "unreachable_on_connection srv user password auth = Some LDAPSocketOpenError"

definition unreachable_directory :: directory where
  "unreachable_directory = example_directory\<lparr>on_connection := unreachable_on_connection\<rparr>"

definition alice_input :: "string \<rightharpoonup> string" where
  "alice_input = [''username'' \<mapsto> ''alice'', ''password'' \<mapsto> ''alice-secret'']"

definition alice_wrong_input :: "string \<rightharpoonup> string" where
  "alice_wrong_input = [''username'' \<mapsto> ''alice'', ''password'' \<mapsto> ''wrong'']"

definition bob_input :: "string \<rightharpoonup> string" where
  "bob_input = [''username'' \<mapsto> ''bob'', ''password'' \<mapsto> ''bob-secret'']"

definition bob_credential :: credentials where
  "bob_credential = \<lparr>cred_id = ''c1'', data = [''username'' \<mapsto> ''bob'']\<rparr>"

definition alice_credential :: credentials where
  "alice_credential = \<lparr>cred_id = ''c2'', data = [''username'' \<mapsto> ''alice'']\<rparr>"

section \<open>Properties\<close>

subsection \<open>Sequencing and the blocks of async_validate_login\<close>


lemma then_do_Inl [simp]: "then_do (tr, Inl e) f = (tr, Inl e)"
  by (simp add: then_do_def)

lemma then_do_Inr [simp]: "then_do (tr, Inr x) f = (tr @ fst (f x), snd (f x))"
  by (simp add: then_do_def split: prod.splits)

lemma then_do_return [simp]: "then_do (return x) f = f x"
  by (simp add: return_def)

lemma then_do_raise [simp]: "then_do (raise e) f = raise e"
  by (simp add: raise_def)

lemma then_do_emit [simp]: "then_do (emit ev) f = (ev # fst (f ()), snd (f ()))"
  by (simp add: emit_def)

lemma fst_return [simp]: "fst (return x) = []" and snd_return [simp]: "snd (return x) = Inr x"
  by (simp_all add: return_def)

lemma fst_raise [simp]: "fst (raise e) = []" and snd_raise [simp]: "snd (raise e) = Inl e"
  by (simp_all add: raise_def)

lemma fst_then_do:
  "fst (then_do m f) = (case snd m of Inl e \<Rightarrow> fst m | Inr x \<Rightarrow> fst m @ fst (f x))"
  by (cases m) (simp split: sum.splits)

lemma snd_then_do:
  "snd (then_do m f) = (case snd m of Inl e \<Rightarrow> Inl e | Inr x \<Rightarrow> snd (f x))"
  by (cases m) (simp split: sum.splits)

lemmas lib_defs = new_server_def new_connection_def conn_starttls_def conn_search_def
  conn_rebind_def lib_reply_def config_get_def

lemma iterate_attribute_value:
  "iterate (attribute_value vs) =
     (case vs of
        [] \<Rightarrow> Inl TypeError
      | [v] \<Rightarrow> Inr (map (\<lambda>c. [c]) v)
      | _ \<Rightarrow> Inr vs)"
  by (simp add: iterate_def attribute_value_def split: list.splits)

lemma member_loop_iterable:
  "iterate v = Inr gs \<Longrightarrow>
   member_loop allowed v b = Inr (b \<or> (\<exists>g\<in>set allowed. lower g \<in> set (map lower gs)))"
  by (induction allowed arbitrary: b) auto

lemma member_loop_not_iterable:
  "iterate v = Inl x \<Longrightarrow> allowed \<noteq> [] \<Longrightarrow> member_loop allowed v b = Inl x"
  by (cases allowed) auto

lemma check_group_membership_cases:
  "check_group_membership cfg uid e =
     (if allowed_group_dns cfg = [] then ([], Inr ())
      else (case member_loop (allowed_group_dns cfg)
                   (attribute_value (attribute_values e ''memberOf'')) False of
              Inl x \<Rightarrow>
                ([Log (Member_of (py_str uid)
                        (py_str (attribute_value (attribute_values e ''memberOf''))))],
                 Inl x)
            | Inr True \<Rightarrow>
                ([Log (Member_of (py_str uid)
                        (py_str (attribute_value (attribute_values e ''memberOf''))))],
                 Inr ())
            | Inr False \<Rightarrow>
                ([Log (Member_of (py_str uid)
                        (py_str (attribute_value (attribute_values e ''memberOf''))))],
                 Inl (InvalidAuthError (Some (not_a_member_message uid))))))"
  by (simp add: check_group_membership_def Let_def quietly_def return_def raise_def
      split: sum.splits bool.splits)

lemma check_credentials_cases:
  "check_credentials cfg d password e =
     (if bind_as_user cfg then ([], Inr ())
      else (case on_rebind d (entry_dn e) password of
              Inl x \<Rightarrow> ([Call (Rebind (entry_dn e) password)], Inl (Ldap3 x))
            | Inr True \<Rightarrow> ([Call (Rebind (entry_dn e) password)], Inr ())
            | Inr False \<Rightarrow> ([Call (Rebind (entry_dn e) password), Log Error_in_bind],
                 Inl (InvalidAuthError (Some ''Invalid LDAP credentials provided'')))))"
  by (simp add: check_credentials_def lib_defs return_def raise_def split: sum.splits bool.splits)

lemma check_entry_calls:
  "Call c \<in> set (fst (check_entry cfg d password ua e)) \<Longrightarrow>
     c = Rebind (entry_dn e) password \<and> \<not> bind_as_user cfg"
  by (auto simp: check_entry_def Let_def check_group_membership_cases check_credentials_cases
      split: if_splits sum.splits bool.splits)

lemma make_server_cases:
  "make_server cfg d =
     (case on_server d (server_arguments cfg) of
        Some x \<Rightarrow> ([], Inl (Ldap3 x))
      | None \<Rightarrow> ([], Inr (server_arguments cfg)))"
  by (simp add: make_server_def lib_defs return_def raise_def split: option.splits)

lemma bind_credentials_cases:
  "bind_credentials cfg username password =
     (if bind_as_user cfg
      then (case bind_username cfg of
              None \<Rightarrow> ([], Inl (KeyError CONF_BIND_USERNAME))
            | Some bu \<Rightarrow>
                (case bind_password cfg of
                   None \<Rightarrow> ([], Inl (KeyError CONF_BIND_PASSWORD))
                 | Some bp \<Rightarrow> ([], Inr (bu, bp))))
      else ([], Inr (username, password)))"
  by (simp add: bind_credentials_def Let_def config_get_def return_def raise_def
      split: option.splits)

lemma bind_connection_cases:
  "bind_connection cfg d srv bu bp =
     ([Call (Connection srv
              (if active_directory cfg then bu
               else username_attr cfg @ ''='' @ bu @ '','' @ base_dn cfg)
              bp (if active_directory cfg then Some NTLM else None))],
      case on_connection d srv
              (if active_directory cfg then bu
               else username_attr cfg @ ''='' @ bu @ '','' @ base_dn cfg)
              bp (if active_directory cfg then Some NTLM else None) of
        Some e \<Rightarrow> Inl (Ldap3 e)
      | None \<Rightarrow> Inr ())"
  by (simp add: bind_connection_def Let_def lib_defs split: option.splits)

lemma upgrade_connection_cases:
  "upgrade_connection cfg =
     (if encryption cfg = CONF_ENCRYPTION_STARTTLS then ([], Inl AttributeError)
      else ([], Inr ()))"
  by (simp add: upgrade_connection_def lib_defs return_def raise_def)

lemma search_person_cases:
  "search_person cfg d =
     ([Call (Search (base_dn cfg) ''(objectclass=person)'' 1 (timeout cfg)
              [username_attr cfg, ''displayName'', ''memberOf''])],
      case on_search d (base_dn cfg) ''(objectclass=person)'' 1 (timeout cfg)
              [username_attr cfg, ''displayName'', ''memberOf''] of
        Inl e \<Rightarrow> Inl (Ldap3 e)
      | Inr es \<Rightarrow> Inr es)"
  by (simp add: search_person_def lib_defs)

lemmas phase_cases = make_server_cases bind_credentials_cases bind_connection_cases
  upgrade_connection_cases search_person_cases

lemma search_reached:
  assumes "Call (Search b f n t a) \<in> set (fst (validate_login_try cfg d u p))"
  shows "b = base_dn cfg \<and> f = ''(objectclass=person)'' \<and> n = 1 \<and> t = timeout cfg \<and>
         a = [username_attr cfg, ''displayName'', ''memberOf''] \<and>
         (\<exists>pre. (\<forall>x y. Call (Rebind x y) \<notin> set pre) \<and> validate_login_try cfg d u p =
            (case on_search d b f n t a of
               Inl e \<Rightarrow> (pre @ [Call (Search b f n t a)], Inl (Ldap3 e))
             | Inr [] \<Rightarrow> (pre @ [Call (Search b f n t a), Log Search_no_results], Inl LdapError)
             | Inr (e0 # es) \<Rightarrow>
                 (pre @ Call (Search b f n t a) # fst (check_entry cfg d p (username_attr cfg) e0),
                  snd (check_entry cfg d p (username_attr cfg) e0))))"
  using assms
  by (auto simp: validate_login_try_def phase_cases
      dest: check_entry_calls
      split: if_splits option.splits sum.splits list.splits)


subsection \<open>The except clause and the login flow step\<close>

lemma async_validate_login_fst:
  "fst (async_validate_login cfg d u p) =
     fst (validate_login_try cfg d u p) @
     (if snd (validate_login_try cfg d u p) = Inl (Ldap3 LDAPBindError) then [Log Bind_failed]
      else [])"
  by (cases "validate_login_try cfg d u p")
    (simp add: async_validate_login_def split: sum.splits exn.splits ldap3_exception.splits)

lemma async_validate_login_snd:
  "snd (async_validate_login cfg d u p) =
     (if snd (validate_login_try cfg d u p) = Inl (Ldap3 LDAPBindError)
      then Inl (InvalidAuthError None)
      else snd (validate_login_try cfg d u p))"
  by (cases "validate_login_try cfg d u p")
    (simp add: async_validate_login_def split: sum.splits exn.splits ldap3_exception.splits)

lemma async_validate_login_calls:
  "Call c \<in> set (fst (async_validate_login cfg d u p)) \<longleftrightarrow>
   Call c \<in> set (fst (validate_login_try cfg d u p))"
  by (simp add: async_validate_login_fst)

lemma async_step_init_snd:
  assumes "ui ''username'' = Some u" "ui ''password'' = Some p"
  shows "snd (async_step_init cfg d (Some ui)) =
     (case snd (async_validate_login cfg d u p) of
        Inl (InvalidAuthError m) \<Rightarrow> Inr (Show_form ''init'' schema [(''base'', ''invalid_auth'')])
      | Inl LdapError \<Rightarrow> Inr (Show_form ''init'' schema [(''base'', ''error'')])
      | Inl (KeyError k) \<Rightarrow> Inl (KeyError k)
      | Inl TypeError \<Rightarrow> Inl TypeError
      | Inl AttributeError \<Rightarrow> Inl AttributeError
      | Inl (Ldap3 e) \<Rightarrow> Inl (Ldap3 e)
      | Inr _ \<Rightarrow> Inr (Finish (ui(''password'' := None))))"
  using assms
  by (cases "async_validate_login cfg d u p")
    (simp add: async_step_init_def step_init_try_def dict_get_def
      split: sum.splits exn.splits)

lemma async_step_init_fst:
  assumes "ui ''username'' = Some u" "ui ''password'' = Some p"
  shows "fst (async_step_init cfg d (Some ui)) = fst (async_validate_login cfg d u p)"
  using assms
  by (cases "async_validate_login cfg d u p")
    (simp add: async_step_init_def step_init_try_def dict_get_def
      split: sum.splits exn.splits)

subsection \<open>Evaluation on the examples\<close>

lemmas model_defs = async_validate_login_def validate_login_try_def phase_cases check_entry_def
  check_group_membership_cases check_credentials_cases server_arguments_def username_attr_def
  CONF_ENCRYPTION_LDAPS_def CONF_ENCRYPTION_STARTTLS_def CONF_BIND_USERNAME_def
  CONF_BIND_PASSWORD_def

lemmas example_defs = example_config_def end_user_config_def starttls_config_def
  admins_config_def staff_config_def end_user_admins_config_def out_of_range_config_def
  example_server_def starttls_server_def alice_values_def alice_entry_def dave_values_def
  dave_entry_def carol_values_def carol_entry_def accepts_def example_on_server_def
  example_on_connection_def example_on_search_def example_on_rebind_def example_directory_def
  dave_on_search_def dave_directory_def carol_on_search_def carol_directory_def
  no_person_on_search_def no_person_directory_def unreachable_on_connection_def
  unreachable_directory_def alice_input_def alice_wrong_input_def bob_input_def

lemmas eval_defs = model_defs example_defs Let_def lower_def lower_char_def
  not_a_member_message_def py_str_def attribute_value_def iterate_def

subsection \<open>The found entry\<close>

lemma end_user_bind_rejected:
  assumes "\<not> bind_as_user cfg"
    and "on_server d (server_arguments cfg) = None"
    and "on_connection d (server_arguments cfg)
           (if active_directory cfg then username
            else username_attr cfg @ ''='' @ username @ '','' @ base_dn cfg)
           password (if active_directory cfg then Some NTLM else None) = Some LDAPBindError"
  shows "async_validate_login cfg d username password =
     ([Call (Connection (server_arguments cfg)
               (if active_directory cfg then username
                else username_attr cfg @ ''='' @ username @ '','' @ base_dn cfg)
               password (if active_directory cfg then Some NTLM else None)),
       Log Bind_failed],
      Inl (InvalidAuthError None))"
  using assms
  by (simp add: async_validate_login_def validate_login_try_def make_server_cases
      bind_credentials_cases bind_connection_cases)

lemma not_a_member_message_neq:
  "not_a_member_message uid \<noteq> ''Invalid LDAP credentials provided''"
  by (simp add: not_a_member_message_def)

lemma check_entry_snd:
  "snd (check_entry cfg d password ua e) =
     (if allowed_group_dns cfg = [] then snd (check_credentials cfg d password e)
      else (case member_loop (allowed_group_dns cfg)
                   (attribute_value (attribute_values e ''memberOf'')) False of
              Inl x \<Rightarrow> Inl x
            | Inr True \<Rightarrow> snd (check_credentials cfg d password e)
            | Inr False \<Rightarrow>
                Inl (InvalidAuthError
                      (Some (not_a_member_message (attribute_value (attribute_values e ua)))))))"
  by (simp add: check_entry_def Let_def check_group_membership_cases
      split: sum.splits bool.splits)

lemma check_credentials_not_denied:
  "snd (check_credentials cfg d password e) \<noteq> Inl (InvalidAuthError (Some (not_a_member_message uid)))"
  using not_a_member_message_neq [of uid]
  by (auto simp: check_credentials_cases split: sum.splits bool.splits)

lemma found_entry:
  assumes "Call (Search b f n t a) \<in> set (fst (async_validate_login cfg d username password))"
    and "on_search d b f n t a = Inr (e # es)"
  shows "snd (validate_login_try cfg d username password) =
           snd (check_entry cfg d password (username_attr cfg) e)"
    and "\<And>c. Call c \<in> set (fst (validate_login_try cfg d username password)) \<Longrightarrow>
           (\<forall>x y. c \<noteq> Rebind x y) \<or>
           Call c \<in> set (fst (check_entry cfg d password (username_attr cfg) e))"
proof -
  from assms(1)
  have reached: "Call (Search b f n t a) \<in> set (fst (validate_login_try cfg d username password))"
    by (simp add: async_validate_login_calls)
  from search_reached [OF reached] assms(2)
  obtain pre where pre: "\<forall>x y. Call (Rebind x y) \<notin> set pre"
    and eq: "validate_login_try cfg d username password =
       (pre @ Call (Search b f n t a) # fst (check_entry cfg d password (username_attr cfg) e),
        snd (check_entry cfg d password (username_attr cfg) e))"
    by auto
  show "snd (validate_login_try cfg d username password) =
           snd (check_entry cfg d password (username_attr cfg) e)"
    by (simp add: eq)
  show "\<And>c. Call c \<in> set (fst (validate_login_try cfg d username password)) \<Longrightarrow>
           (\<forall>x y. c \<noteq> Rebind x y) \<or>
           Call c \<in> set (fst (check_entry cfg d password (username_attr cfg) e))"
    using pre by (auto simp: eq)
qed

subsection \<open>Exceptions that are caught, and the calls before the search\<close>

lemma caught_then_do:
  assumes "snd (then_do m f) = Inl e"
    and "\<And>e. snd m = Inl e \<Longrightarrow> caught e"
    and "\<And>x e. snd m = Inr x \<Longrightarrow> snd (f x) = Inl e \<Longrightarrow> caught e"
  shows "caught e"
  using assms by (cases "snd m") (auto simp: snd_then_do)

lemma caught_check_credentials:
  assumes "\<And>user pw x. on_rebind d user pw = Inl x \<Longrightarrow> x = LDAPBindError"
    and c: "snd (check_credentials cfg d password e) = Inl x"
  shows "caught x"
proof (cases "on_rebind d (entry_dn e) password")
  case (Inl y)
  with assms(1) have "y = LDAPBindError" by blast
  with c Inl show ?thesis by (auto simp: check_credentials_cases split: if_splits)
next
  case (Inr ok)
  with c show ?thesis by (cases ok) (auto simp: check_credentials_cases split: if_splits)
qed

lemma caught_check_entry:
  assumes rebd: "\<And>user pw x. on_rebind d user pw = Inl x \<Longrightarrow> x = LDAPBindError"
    and grps: "allowed_group_dns cfg = [] \<or> attribute_values e ''memberOf'' \<noteq> []"
    and r: "snd (check_entry cfg d password ua e) = Inl x"
  shows "caught x"
proof (cases "allowed_group_dns cfg = []")
  case True
  with r have "snd (check_credentials cfg d password e) = Inl x"
    by (simp add: check_entry_snd)
  then show ?thesis using rebd by (blast intro: caught_check_credentials)
next
  case False
  with grps have "attribute_values e ''memberOf'' \<noteq> []" by simp
  then have "\<exists>gs. iterate (attribute_value (attribute_values e ''memberOf'')) = Inr gs"
    by (simp add: iterate_attribute_value split: list.splits)
  then obtain gs where it: "iterate (attribute_value (attribute_values e ''memberOf'')) = Inr gs"
    by blast
  show ?thesis
  proof (cases "\<exists>g\<in>set (allowed_group_dns cfg). lower g \<in> set (map lower gs)")
    case True
    with r False have "snd (check_credentials cfg d password e) = Inl x"
      by (simp add: check_entry_snd member_loop_iterable [OF it])
    then show ?thesis using rebd by (blast intro: caught_check_credentials)
  next
    case no: False
    with r False show ?thesis
      by (auto simp: check_entry_snd member_loop_iterable [OF it])
  qed
qed

lemma caught_validate_login_try:
  assumes cred: "bind_as_user cfg \<longrightarrow> bind_username cfg \<noteq> None \<and> bind_password cfg \<noteq> None"
    and mode: "encryption cfg \<noteq> CONF_ENCRYPTION_STARTTLS"
    and srvr: "\<And>x. on_server d (server_arguments cfg) = Some x \<Longrightarrow> x = LDAPBindError"
    and conn: "\<And>srv user pw auth x. on_connection d srv user pw auth = Some x \<Longrightarrow> x = LDAPBindError"
    and srch: "\<And>b f n t a x. on_search d b f n t a = Inl x \<Longrightarrow> x = LDAPBindError"
    and rebd: "\<And>user pw x. on_rebind d user pw = Inl x \<Longrightarrow> x = LDAPBindError"
    and grps: "\<And>b f n t a e es. allowed_group_dns cfg \<noteq> [] \<Longrightarrow>
                 on_search d b f n t a = Inr (e # es) \<Longrightarrow> attribute_values e ''memberOf'' \<noteq> []"
    and r: "snd (validate_login_try cfg d u p) = Inl x"
  shows "caught x"
proof -
  define S where "S = (\<lambda>entries. case entries of
       [] \<Rightarrow> then_do (emit (Log Search_no_results)) (\<lambda>_. raise LdapError)
     | entry0 # _ \<Rightarrow> check_entry cfg d p (username_attr cfg) entry0)"
  define T3 where "T3 = then_do (search_person cfg d) S"
  define T2 where "T2 = then_do (upgrade_connection cfg) (\<lambda>_. T3)"
  define T1 where "T1 = (\<lambda>srv bu bp. then_do (bind_connection cfg d srv bu bp) (\<lambda>_. T2))"
  define T0 where "T0 = (\<lambda>srv. then_do (bind_credentials cfg u p) (\<lambda>(bu, bp). T1 srv bu bp))"
  have vlt: "validate_login_try cfg d u p = then_do (make_server cfg d) T0"
    by (simp only: validate_login_try_def T0_def T1_def T2_def T3_def S_def)
  have c3: "caught e" if "snd T3 = Inl e" for e
    using that unfolding T3_def
  proof (rule caught_then_do)
    fix e' assume "snd (search_person cfg d) = Inl e'"
    then show "caught e'"
      by (auto simp: search_person_cases split: sum.splits dest!: srch)
  next
    fix entries e'
    assume found: "snd (search_person cfg d) = Inr entries" and s: "snd (S entries) = Inl e'"
    show "caught e'"
    proof (cases entries)
      case Nil
      with s show ?thesis by (auto simp: S_def raise_def)
    next
      case (Cons entry0 rest)
      with s have ce: "snd (check_entry cfg d p (username_attr cfg) entry0) = Inl e'"
        by (simp add: S_def)
      from found Cons
      have "on_search d (base_dn cfg) ''(objectclass=person)'' 1 (timeout cfg)
              [username_attr cfg, ''displayName'', ''memberOf''] = Inr (entry0 # rest)"
        by (auto simp: search_person_cases split: sum.splits)
      then have "allowed_group_dns cfg = [] \<or> attribute_values entry0 ''memberOf'' \<noteq> []"
        using grps by blast
      then show ?thesis using rebd ce by (blast intro: caught_check_entry)
    qed
  qed
  have c2: "caught e" if "snd T2 = Inl e" for e
    using that unfolding T2_def
  proof (rule caught_then_do)
    fix e' assume "snd (upgrade_connection cfg) = Inl e'"
    with mode show "caught e'"
      by (auto simp: upgrade_connection_cases split: if_splits)
  next
    fix e' assume "snd T3 = Inl e'"
    then show "caught e'" by (rule c3)
  qed
  have c1: "caught e" if "snd (T1 srv bu bp) = Inl e" for srv bu bp e
    using that unfolding T1_def
  proof (rule caught_then_do)
    fix e' assume "snd (bind_connection cfg d srv bu bp) = Inl e'"
    then show "caught e'"
      by (auto simp: bind_connection_cases split: option.splits dest!: conn)
  next
    fix e' assume "snd T2 = Inl e'"
    then show "caught e'" by (rule c2)
  qed
  have c0: "caught e" if "snd (T0 srv) = Inl e" for srv e
    using that unfolding T0_def
  proof (rule caught_then_do)
    fix e' assume "snd (bind_credentials cfg u p) = Inl e'"
    with cred show "caught e'"
      by (auto simp: bind_credentials_cases split: if_splits option.splits)
  next
    fix cr :: "string \<times> string" and e'
    assume "snd (case cr of (bu, bp) \<Rightarrow> T1 srv bu bp) = Inl e'"
    then have "snd (T1 srv (fst cr) (snd cr)) = Inl e'"
      by (simp add: case_prod_beta)
    then show "caught e'" by (rule c1)
  qed
  from r have "snd (then_do (make_server cfg d) T0) = Inl x"
    by (simp only: vlt)
  then show ?thesis
  proof (rule caught_then_do)
    fix e' assume "snd (make_server cfg d) = Inl e'"
    then show "caught e'"
      by (auto simp: make_server_cases split: option.splits dest!: srvr)
  next
    fix srv e' assume "snd (T0 srv) = Inl e'"
    then show "caught e'" by (rule c0)
  qed
qed

lemma check_entry_only_rebind:
  "Call c \<in> set (fst (check_entry cfg d password ua e)) \<Longrightarrow> c = Rebind (entry_dn e) password"
  using check_entry_calls by blast

lemma failed_server:
  assumes "on_server d (server_arguments cfg) = Some x"
  shows "validate_login_try cfg d u p = ([], Inl (Ldap3 x))"
  using assms by (simp add: validate_login_try_def make_server_cases)

lemma failed_connection:
  assumes "Call (Connection srv user pw auth) \<in> set (fst (validate_login_try cfg d u p))"
    and "on_connection d srv user pw auth = Some x"
  shows "validate_login_try cfg d u p = ([Call (Connection srv user pw auth)], Inl (Ldap3 x))"
  using assms
  by (auto simp: validate_login_try_def phase_cases
      dest!: check_entry_only_rebind
      split: if_splits option.splits sum.splits list.splits)

lemma starttls_login:
  assumes "encryption cfg = CONF_ENCRYPTION_STARTTLS"
  shows "(\<exists>e. snd (validate_login_try cfg d u p) = Inl e)"
    and "Call c \<in> set (fst (validate_login_try cfg d u p)) \<Longrightarrow>
           \<exists>srv user pw auth. c = Connection srv user pw auth"
    and "Call (Connection srv user pw auth) \<in> set (fst (validate_login_try cfg d u p)) \<Longrightarrow>
           on_connection d srv user pw auth = None \<Longrightarrow>
           validate_login_try cfg d u p = ([Call (Connection srv user pw auth)], Inl AttributeError)"
  using assms
  by (auto simp: validate_login_try_def phase_cases
      split: if_splits option.splits)

subsection \<open>The credentials of the host\<close>

lemma find_credentials_find:
  assumes "\<forall>c\<in>set creds. data c ''username'' \<noteq> None"
  shows "find_credentials creds username =
           Inr (List.find (\<lambda>c. data c ''username'' = Some username) creds)"
  using assms by (induction creds) (auto split: option.splits)

lemma find_append_None:
  "List.find P xs = None \<Longrightarrow> List.find P (xs @ ys) = List.find P ys"
  by (induction xs) (auto split: if_splits)

lemma created_credentials_are_found:
  assumes "\<forall>c\<in>set creds. data c ''username'' \<noteq> None"
    and "async_get_or_create_credentials creds flow_result = Inr (Create_credentials dat)"
  shows "async_get_or_create_credentials (creds @ [\<lparr>cred_id = i, data = dat\<rparr>]) flow_result =
           Inr (Existing \<lparr>cred_id = i, data = dat\<rparr>)"
proof -
  from assms(2) obtain username where u: "flow_result ''username'' = Some username"
    by (auto simp: async_get_or_create_credentials_def split: option.splits)
  from assms u have nf: "List.find (\<lambda>c. data c ''username'' = Some username) creds = None"
    and dat: "dat = [''username'' \<mapsto> username]"
    by (auto simp: async_get_or_create_credentials_def find_credentials_find split: option.splits)
  have all: "\<forall>c\<in>set (creds @ [\<lparr>cred_id = i, data = dat\<rparr>]). data c ''username'' \<noteq> None"
    using assms(1) dat by auto
  have "List.find (\<lambda>c. data c ''username'' = Some username) (creds @ [\<lparr>cred_id = i, data = dat\<rparr>])
        = Some \<lparr>cred_id = i, data = dat\<rparr>"
    using nf dat by (simp add: find_append_None)
  then show ?thesis
    using u by (simp add: async_get_or_create_credentials_def find_credentials_find [OF all])
qed

subsection \<open>The group check\<close>

lemma member_loop_values:
  assumes "list_all is_ascii allowed" and "list_all is_ascii vs"
  shows "member_loop allowed (attribute_value vs) False =
     (case vs of
        [] \<Rightarrow> (if allowed = [] then Inr False else Inl TypeError)
      | [v] \<Rightarrow> Inr (\<exists>g\<in>set allowed. \<exists>c\<in>set v. lower g = lower [c])
      | _ \<Rightarrow> Inr (\<exists>g\<in>set allowed. \<exists>u\<in>set vs. lower g = lower u))"
proof -
  have mem: "(\<exists>g\<in>set allowed. lower g \<in> set (map lower gs)) =
             (\<exists>g\<in>set allowed. \<exists>u\<in>set gs. lower g = lower u)" for gs
    by auto
  show ?thesis
  proof (cases vs)
    case Nil
    then have "iterate (attribute_value vs) = Inl TypeError"
      by (simp add: iterate_attribute_value)
    then show ?thesis
      using Nil by (cases allowed) auto
  next
    case (Cons v rest)
    show ?thesis
    proof (cases rest)
      case Nil
      with Cons have "iterate (attribute_value vs) = Inr (map (\<lambda>c. [c]) v)"
        by (simp add: iterate_attribute_value)
      from member_loop_iterable [OF this, of allowed False] Cons Nil show ?thesis
        by simp blast
    next
      case (Cons w rest')
      with \<open>vs = v # rest\<close> have "iterate (attribute_value vs) = Inr vs"
        by (simp add: iterate_attribute_value)
      from member_loop_iterable [OF this, of allowed False] Cons \<open>vs = v # rest\<close> show ?thesis
        by (simp only: mem) simp
    qed
  qed
qed

lemma several_groups_example:
  "async_validate_login staff_config dave_directory ''alice'' ''alice-secret'' =
     ([Call (Connection example_server ''uid=svc,dc=example,dc=com'' ''svc-secret'' None),
       Call (Search ''dc=example,dc=com'' ''(objectclass=person)'' 1 10
               [''uid'', ''displayName'', ''memberOf'']),
       Log (Found_user ''Dave Example'' ''dave''),
       Log (Member_of ''dave''
             (''['' @ [CHR 0x27] @ ''cn=staff,dc=example,dc=com'' @ [CHR 0x27] @ '', '' @
              [CHR 0x27] @ ''cn=operators,dc=example,dc=com'' @ [CHR 0x27] @ '']''))],
      Inr ())"
  by (simp add: eval_defs py_repr_def repr_char_def)


text \<open>
  The part of the order of the checks that holds: when the found entry has a group value
  and the loop finds no match, the group denial is raised before line 182 is reached. The
  message names the value of the attribute \<open>sAMAccountName\<close> in the mode of Active
  Directory and of the configured username attribute otherwise.
\<close>

lemma group_denial_precedes_rebind:
  assumes "Call (Search b f n t a) \<in> set (fst (async_validate_login cfg d username password))"
    and "on_search d b f n t a = Inr (e # es)"
    and "allowed_group_dns cfg \<noteq> []"
    and "member_loop (allowed_group_dns cfg)
           (attribute_value (attribute_values e ''memberOf'')) False = Inr False"
  shows "snd (async_validate_login cfg d username password) =
           Inl (InvalidAuthError (Some (''User '' @
                  py_str (attribute_value (attribute_values e
                    (if active_directory cfg then ''sAMAccountName''
                     else username_attribute cfg))) @
                  '' is not a member of any of the required groups'')))"
    and "snd (async_validate_login cfg d username password) \<noteq>
           Inl (InvalidAuthError (Some ''Invalid LDAP credentials provided''))"
    and "Call (Rebind user pw) \<notin> set (fst (async_validate_login cfg d username password))"
    and "ui ''username'' = Some username \<Longrightarrow> ui ''password'' = Some password \<Longrightarrow>
           snd (async_step_init cfg d (Some ui)) =
             Inr (Show_form ''init'' schema [(''base'', ''invalid_auth'')])"
proof -
  let ?uid = "attribute_value (attribute_values e (username_attr cfg))"
  have ce: "check_entry cfg d password (username_attr cfg) e =
     ([Log (Found_user (py_str (attribute_value (attribute_values e ''displayName'')))
              (py_str ?uid)),
       Log (Member_of (py_str ?uid) (py_str (attribute_value (attribute_values e ''memberOf''))))],
      Inl (InvalidAuthError (Some (not_a_member_message ?uid))))"
    using assms(3,4) by (simp add: check_entry_def Let_def check_group_membership_cases)
  have r0: "snd (validate_login_try cfg d username password) =
      Inl (InvalidAuthError (Some (not_a_member_message ?uid)))"
    using found_entry(1) [OF assms(1,2)] by (simp add: ce)
  then have r: "snd (async_validate_login cfg d username password) =
      Inl (InvalidAuthError (Some (not_a_member_message ?uid)))"
    by (simp add: async_validate_login_snd)
  then show "snd (async_validate_login cfg d username password) =
           Inl (InvalidAuthError (Some (''User '' @
                  py_str (attribute_value (attribute_values e
                    (if active_directory cfg then ''sAMAccountName''
                     else username_attribute cfg))) @
                  '' is not a member of any of the required groups'')))"
    by (simp add: not_a_member_message_def username_attr_def)
  show "snd (async_validate_login cfg d username password) \<noteq>
           Inl (InvalidAuthError (Some ''Invalid LDAP credentials provided''))"
    using r not_a_member_message_neq [of ?uid] by simp
  show "Call (Rebind user pw) \<notin> set (fst (async_validate_login cfg d username password))"
    using found_entry(2) [OF assms(1,2), of "Rebind user pw"]
    by (auto simp: async_validate_login_calls ce)
  show "snd (async_step_init cfg d (Some ui)) =
             Inr (Show_form ''init'' schema [(''base'', ''invalid_auth'')])"
    if "ui ''username'' = Some username" "ui ''password'' = Some password"
    using r that by (simp add: async_step_init_snd)
qed

text \<open>
  In the mode that binds with the credentials of the request: bob logs in, the search
  finds alice, who is not an admin, and the re-bind as alice with the password of bob
  would be rejected. The group denial is what is raised.
\<close>

lemma group_denial_precedes_rebind_example:
  "async_validate_login end_user_admins_config example_directory ''bob'' ''bob-secret'' =
     ([Call (Connection example_server ''uid=bob,dc=example,dc=com'' ''bob-secret'' None),
       Call (Search ''dc=example,dc=com'' ''(objectclass=person)'' 1 10
               [''uid'', ''displayName'', ''memberOf'']),
       Log (Found_user ''Alice Example'' ''alice''),
       Log (Member_of ''alice'' ''cn=staff,dc=example,dc=com'')],
      Inl (InvalidAuthError (Some ''User alice is not a member of any of the required groups'')))
   \<and> on_rebind example_directory (entry_dn alice_entry) ''bob-secret'' = Inr False"
  by (simp add: eval_defs)

section \<open>The claims\<close>

subsection \<open>C1: the re-bind after a bind with the configured account\<close>

text \<open>
  C1 says that, when the provider binds with its configured account (\<open>bind_as_user\<close> true,
  the spec's bind-as-service-account) and bind and search succeed, the connection is
  re-bound with the DN of the found entry and the password of the request, so that a wrong
  password fails with InvalidCredentials. The condition of line 182 is \<open>not bind_as_user\<close>:
  with the configured account no re-bind is made. On the example directory, which rejects
  the password \<open>wrong\<close> for alice, the login of alice with that password makes the bind as
  \<open>svc\<close> and the search and then returns normally.
\<close>

theorem C1_configured_account_accepts_wrong_password:
  "async_validate_login example_config example_directory ''alice'' ''wrong'' =
     ([Call (Connection example_server ''uid=svc,dc=example,dc=com'' ''svc-secret'' None),
       Call (Search ''dc=example,dc=com'' ''(objectclass=person)'' 1 10
               [''uid'', ''displayName'', ''memberOf'']),
       Log (Found_user ''Alice Example'' ''alice'')],
      Inr ())
   \<and> on_rebind example_directory (entry_dn alice_entry) ''wrong'' = Inr False"
  by (simp add: eval_defs)

subsection \<open>C2: the bind with the credentials of the request\<close>

text \<open>
  C2 says that with \<open>bind_as_user\<close> false the bind with the username and password of the
  request is the only bind performed. After that bind and the search have succeeded, line
  182 re-binds the connection as the found entry with the same password: the login of
  alice with her password performs two binds.
\<close>

theorem C2_end_user_bind_is_followed_by_rebind:
  "async_validate_login end_user_config example_directory ''alice'' ''alice-secret'' =
     ([Call (Connection example_server ''uid=alice,dc=example,dc=com'' ''alice-secret'' None),
       Call (Search ''dc=example,dc=com'' ''(objectclass=person)'' 1 10
               [''uid'', ''displayName'', ''memberOf'']),
       Log (Found_user ''Alice Example'' ''alice''),
       Call (Rebind ''uid=alice,dc=example,dc=com'' ''alice-secret'')],
      Inr ())"
  by (simp add: eval_defs)

subsection \<open>C3: with the configured account the request does not matter\<close>

text \<open>
  C3: when \<open>bind_as_user\<close> is true, the calls made, the records logged and the result of
  \<open>async_validate_login\<close> are the same for any two requests under the same configuration
  and directory: neither the username nor the password of the request is used.
\<close>

theorem C3_configured_account_ignores_request:
  assumes "bind_as_user cfg"
  shows "async_validate_login cfg d u1 p1 = async_validate_login cfg d u2 p2"
proof -
  have "validate_login_try cfg d u1 p1 = validate_login_try cfg d u2 p2"
    using assms
    by (simp add: validate_login_try_def bind_credentials_cases check_entry_def
        check_credentials_cases split: option.splits)
  then show ?thesis by (simp add: async_validate_login_def)
qed

text \<open>The request of alice and a request of someone else with a guessed password.\<close>

theorem C3_configured_account_ignores_request_witness:
  "bind_as_user example_config \<and>
   async_validate_login example_config example_directory ''alice'' ''alice-secret'' =
   async_validate_login example_config example_directory ''mallory'' ''guess''"
proof -
  have h: "bind_as_user example_config" by (simp add: example_config_def)
  from C3_configured_account_ignores_request [OF h] h show ?thesis by simp
qed

subsection \<open>C4: what leaves async_step_init\<close>

text \<open>
  C4 says that every outcome of an authentication attempt, transport faults included, ends
  with the step completed or the form shown again with \<open>invalid_auth\<close> or \<open>error\<close>. The
  module catches \<open>LDAPBindError\<close>, \<open>InvalidAuthError\<close> and \<open>LdapError\<close> only: when the server
  cannot be reached, the exception of the client library leaves \<open>async_step_init\<close>.
\<close>

theorem C4_transport_fault_escapes_counterexample:
  "snd (async_step_init example_config unreachable_directory (Some alice_input)) =
     Inl (Ldap3 LDAPSocketOpenError)"
  by (simp add: async_step_init_def step_init_try_def dict_get_def eval_defs)

text \<open>
  C4, amended: for an input with a username and a password, the step is completed or the
  form is shown again with \<open>invalid_auth\<close> or \<open>error\<close> when
  \<^item> the bind credentials that the configuration asks for are present,
  \<^item> the encryption mode is not \<open>starttls\<close>,
  \<^item> with a non-empty allow-list, an entry that the search returns has a group value, and
  \<^item> the constructor of the server, the constructor of the connection, the search and the
    re-bind raise nothing but \<open>LDAPBindError\<close>.

  An exception of another class raised by the constructor of the server (a port out of
  range) or by the constructor of the connection (the socket cannot be opened) is not
  caught and leaves \<open>async_step_init\<close>. What the step does in the mode \<open>starttls\<close> and for
  an entry without a group value is left out here. The statement does not depend on what
  \<open>lower\<close> does to a string.
\<close>

theorem C4_step_init_outcomes:
  assumes "ui ''username'' = Some username" and "ui ''password'' = Some password"
  shows "((bind_as_user cfg \<longrightarrow> bind_username cfg \<noteq> None \<and> bind_password cfg \<noteq> None)
        \<and> encryption cfg \<noteq> CONF_ENCRYPTION_STARTTLS
        \<and> (\<forall>b f n t a e es. allowed_group_dns cfg \<noteq> [] \<and> on_search d b f n t a = Inr (e # es)
              \<longrightarrow> attribute_values e ''memberOf'' \<noteq> [])
        \<and> (\<forall>x. on_server d (server_arguments cfg) = Some x \<longrightarrow> x = LDAPBindError)
        \<and> (\<forall>srv user pw auth x. on_connection d srv user pw auth = Some x \<longrightarrow> x = LDAPBindError)
        \<and> (\<forall>b f n t a x. on_search d b f n t a = Inl x \<longrightarrow> x = LDAPBindError)
        \<and> (\<forall>user pw x. on_rebind d user pw = Inl x \<longrightarrow> x = LDAPBindError)
        \<longrightarrow> snd (async_step_init cfg d (Some ui)) = Inr (Finish (ui(''password'' := None)))
          \<or> snd (async_step_init cfg d (Some ui)) =
               Inr (Show_form ''init'' schema [(''base'', ''invalid_auth'')])
          \<or> snd (async_step_init cfg d (Some ui)) =
               Inr (Show_form ''init'' schema [(''base'', ''error'')]))
     \<and> (\<forall>x. on_server d (server_arguments cfg) = Some x \<and> x \<noteq> LDAPBindError
          \<longrightarrow> snd (async_step_init cfg d (Some ui)) = Inl (Ldap3 x))
     \<and> (\<forall>srv user pw auth x.
          Call (Connection srv user pw auth) \<in> set (fst (async_step_init cfg d (Some ui)))
          \<and> on_connection d srv user pw auth = Some x \<and> x \<noteq> LDAPBindError
          \<longrightarrow> snd (async_step_init cfg d (Some ui)) = Inl (Ldap3 x))"
proof (intro conjI impI allI; (elim conjE)?)
  assume cred: "bind_as_user cfg \<longrightarrow> bind_username cfg \<noteq> None \<and> bind_password cfg \<noteq> None"
    and mode: "encryption cfg \<noteq> CONF_ENCRYPTION_STARTTLS"
    and grps: "\<forall>b f n t a e es. allowed_group_dns cfg \<noteq> [] \<and> on_search d b f n t a = Inr (e # es)
              \<longrightarrow> attribute_values e ''memberOf'' \<noteq> []"
    and srvr: "\<forall>x. on_server d (server_arguments cfg) = Some x \<longrightarrow> x = LDAPBindError"
    and conn: "\<forall>srv user pw auth x. on_connection d srv user pw auth = Some x \<longrightarrow> x = LDAPBindError"
    and srch: "\<forall>b f n t a x. on_search d b f n t a = Inl x \<longrightarrow> x = LDAPBindError"
    and rebd: "\<forall>user pw x. on_rebind d user pw = Inl x \<longrightarrow> x = LDAPBindError"
  have c: "caught x" if r: "snd (validate_login_try cfg d username password) = Inl x" for x
  proof (rule caught_validate_login_try [OF cred mode _ _ _ _ _ r])
    fix y assume "on_server d (server_arguments cfg) = Some y"
    with srvr show "y = LDAPBindError" by blast
  next
    fix srv user pw auth y assume "on_connection d srv user pw auth = Some y"
    with conn show "y = LDAPBindError" by blast
  next
    fix b f n t a y assume "on_search d b f n t a = Inl y"
    with srch show "y = LDAPBindError" by blast
  next
    fix user pw y assume "on_rebind d user pw = Inl y"
    with rebd show "y = LDAPBindError" by blast
  next
    fix b f n t a e es
    assume "allowed_group_dns cfg \<noteq> []" and "on_search d b f n t a = Inr (e # es)"
    with grps show "attribute_values e ''memberOf'' \<noteq> []" by blast
  qed
  show "snd (async_step_init cfg d (Some ui)) = Inr (Finish (ui(''password'' := None)))
          \<or> snd (async_step_init cfg d (Some ui)) =
               Inr (Show_form ''init'' schema [(''base'', ''invalid_auth'')])
          \<or> snd (async_step_init cfg d (Some ui)) =
               Inr (Show_form ''init'' schema [(''base'', ''error'')])"
  proof (cases "snd (validate_login_try cfg d username password)")
    case (Inr y)
    then show ?thesis
      by (simp add: async_step_init_snd [OF assms] async_validate_login_snd)
  next
    case (Inl x)
    with c have "caught x" by blast
    then show ?thesis using Inl
      by (cases x rule: caught.cases)
        (simp_all add: async_step_init_snd [OF assms] async_validate_login_snd)
  qed
next
  fix x
  assume a: "on_server d (server_arguments cfg) = Some x" "x \<noteq> LDAPBindError"
  then have "validate_login_try cfg d username password = ([], Inl (Ldap3 x))"
    using failed_server [of d cfg x username password] by simp
  with a show "snd (async_step_init cfg d (Some ui)) = Inl (Ldap3 x)"
    by (simp add: async_step_init_snd [OF assms] async_validate_login_snd)
next
  fix srv user pw auth x
  assume a: "Call (Connection srv user pw auth) \<in> set (fst (async_step_init cfg d (Some ui)))"
    "on_connection d srv user pw auth = Some x" "x \<noteq> LDAPBindError"
  then have "validate_login_try cfg d username password =
               ([Call (Connection srv user pw auth)], Inl (Ldap3 x))"
    using failed_connection [of srv user pw auth cfg d username password x]
    by (simp add: async_step_init_fst [OF assms] async_validate_login_calls)
  with a show "snd (async_step_init cfg d (Some ui)) = Inl (Ldap3 x)"
    by (simp add: async_step_init_snd [OF assms] async_validate_login_snd)
qed



text \<open>
  The login of alice against the example directory, where it is accepted; with the
  allow-list of the admins, where the form is shown again; against the server that cannot
  be reached; and with a port that the constructor of the server refuses.
\<close>

theorem C4_step_init_outcomes_witness:
  "alice_input ''username'' = Some ''alice'' \<and> alice_input ''password'' = Some ''alice-secret''
   \<and> bind_username example_config \<noteq> None \<and> bind_password example_config \<noteq> None
   \<and> encryption example_config \<noteq> CONF_ENCRYPTION_STARTTLS
   \<and> on_server example_directory (server_arguments example_config) = None
   \<and> snd (async_step_init example_config example_directory (Some alice_input)) =
         Inr (Finish (alice_input(''password'' := None)))
   \<and> allowed_group_dns admins_config \<noteq> []
   \<and> attribute_values alice_entry ''memberOf'' \<noteq> []
   \<and> snd (async_step_init admins_config example_directory (Some alice_input)) =
         Inr (Show_form ''init'' schema [(''base'', ''invalid_auth'')])
   \<and> Call (Connection example_server ''uid=svc,dc=example,dc=com'' ''svc-secret'' None)
         \<in> set (fst (async_step_init example_config unreachable_directory (Some alice_input)))
   \<and> on_connection unreachable_directory example_server ''uid=svc,dc=example,dc=com''
         ''svc-secret'' None = Some LDAPSocketOpenError
   \<and> snd (async_step_init example_config unreachable_directory (Some alice_input)) =
         Inl (Ldap3 LDAPSocketOpenError)
   \<and> on_server example_directory (server_arguments out_of_range_config) =
         Some LDAPInvalidPortError
   \<and> snd (async_step_init out_of_range_config example_directory (Some alice_input)) =
         Inl (Ldap3 LDAPInvalidPortError)"
proof -
  let ?handled = "\<lambda>cfg d.
        (bind_as_user cfg \<longrightarrow> bind_username cfg \<noteq> None \<and> bind_password cfg \<noteq> None)
        \<and> encryption cfg \<noteq> CONF_ENCRYPTION_STARTTLS
        \<and> (\<forall>b f n t a e es. allowed_group_dns cfg \<noteq> [] \<and> on_search d b f n t a = Inr (e # es)
              \<longrightarrow> attribute_values e ''memberOf'' \<noteq> [])
        \<and> (\<forall>x. on_server d (server_arguments cfg) = Some x \<longrightarrow> x = LDAPBindError)
        \<and> (\<forall>srv user pw auth x. on_connection d srv user pw auth = Some x \<longrightarrow> x = LDAPBindError)
        \<and> (\<forall>b f n t a x. on_search d b f n t a = Inl x \<longrightarrow> x = LDAPBindError)
        \<and> (\<forall>user pw x. on_rebind d user pw = Inl x \<longrightarrow> x = LDAPBindError)"
  have u: "alice_input ''username'' = Some ''alice''"
    and p: "alice_input ''password'' = Some ''alice-secret''"
    by (simp_all add: alice_input_def)
  have h0: "bind_username example_config \<noteq> None \<and> bind_password example_config \<noteq> None
      \<and> encryption example_config \<noteq> CONF_ENCRYPTION_STARTTLS
      \<and> on_server example_directory (server_arguments example_config) = None
      \<and> allowed_group_dns admins_config \<noteq> []
      \<and> attribute_values alice_entry ''memberOf'' \<noteq> []"
    by (simp add: example_defs server_arguments_def CONF_ENCRYPTION_STARTTLS_def)
  have g: "\<forall>b f n t a e es.
              allowed_group_dns cfg \<noteq> [] \<and> on_search example_directory b f n t a = Inr (e # es)
              \<longrightarrow> attribute_values e ''memberOf'' \<noteq> []" for cfg :: config
    by (auto simp: example_directory_def example_on_search_def alice_entry_def alice_values_def
        split: if_splits)
  have l1: "\<forall>srv user pw auth x.
         on_connection example_directory srv user pw auth = Some x \<longrightarrow> x = LDAPBindError"
    by (simp add: example_directory_def example_on_connection_def)
  have l2: "\<forall>b f n t a x. on_search example_directory b f n t a = Inl x \<longrightarrow> x = LDAPBindError"
    by (simp add: example_directory_def example_on_search_def)
  have l3: "\<forall>user pw x. on_rebind example_directory user pw = Inl x \<longrightarrow> x = LDAPBindError"
    by (simp add: example_directory_def example_on_rebind_def)
  have c0: "bind_as_user example_config \<longrightarrow>
              bind_username example_config \<noteq> None \<and> bind_password example_config \<noteq> None"
    and m0: "encryption example_config \<noteq> CONF_ENCRYPTION_STARTTLS"
    and s0: "\<forall>x. on_server example_directory (server_arguments example_config) = Some x
              \<longrightarrow> x = LDAPBindError"
    by (simp_all add: example_defs server_arguments_def CONF_ENCRYPTION_STARTTLS_def)
  have c1: "bind_as_user admins_config \<longrightarrow>
              bind_username admins_config \<noteq> None \<and> bind_password admins_config \<noteq> None"
    and m1: "encryption admins_config \<noteq> CONF_ENCRYPTION_STARTTLS"
    and s1: "\<forall>x. on_server example_directory (server_arguments admins_config) = Some x
              \<longrightarrow> x = LDAPBindError"
    by (simp_all add: example_defs server_arguments_def CONF_ENCRYPTION_STARTTLS_def)
  from c0 m0 g [of example_config] s0 l1 l2 l3
  have H1: "?handled example_config example_directory"
    by (intro conjI)
  from c1 m1 g [of admins_config] s1 l1 l2 l3
  have H2: "?handled admins_config example_directory"
    by (intro conjI)
  have h6: "Call (Connection example_server ''uid=svc,dc=example,dc=com'' ''svc-secret'' None)
         \<in> set (fst (async_step_init example_config unreachable_directory (Some alice_input)))"
    by (simp only: async_step_init_fst [OF u p]) (simp add: eval_defs)
  have h7: "on_connection unreachable_directory example_server ''uid=svc,dc=example,dc=com''
         ''svc-secret'' None = Some LDAPSocketOpenError"
    by (simp add: example_defs)
  have h8: "on_server example_directory (server_arguments out_of_range_config) =
         Some LDAPInvalidPortError"
    by (simp add: example_defs server_arguments_def)
  have ok: "snd (async_validate_login example_config example_directory ''alice'' ''alice-secret'')
         = Inr ()"
    by (simp add: eval_defs)
  have denied: "snd (async_validate_login admins_config example_directory ''alice'' ''alice-secret'')
         = Inl (InvalidAuthError
                 (Some ''User alice is not a member of any of the required groups''))"
    by (simp add: eval_defs)
  from C4_step_init_outcomes [OF u p, of example_config example_directory]
  have "?handled example_config example_directory \<longrightarrow>
       snd (async_step_init example_config example_directory (Some alice_input)) =
         Inr (Finish (alice_input(''password'' := None)))
       \<or> snd (async_step_init example_config example_directory (Some alice_input)) =
         Inr (Show_form ''init'' schema [(''base'', ''invalid_auth'')])
       \<or> snd (async_step_init example_config example_directory (Some alice_input)) =
         Inr (Show_form ''init'' schema [(''base'', ''error'')])"
    by (rule conjunct1)
  from this H1
  have a0: "snd (async_step_init example_config example_directory (Some alice_input)) =
         Inr (Finish (alice_input(''password'' := None)))
       \<or> snd (async_step_init example_config example_directory (Some alice_input)) =
         Inr (Show_form ''init'' schema [(''base'', ''invalid_auth'')])
       \<or> snd (async_step_init example_config example_directory (Some alice_input)) =
         Inr (Show_form ''init'' schema [(''base'', ''error'')])"
    by (rule mp)
  have a: "snd (async_step_init example_config example_directory (Some alice_input)) =
         Inr (Finish (alice_input(''password'' := None)))"
    using a0 ok by (simp add: async_step_init_snd [OF u p])
  from C4_step_init_outcomes [OF u p, of admins_config example_directory]
  have "?handled admins_config example_directory \<longrightarrow>
       snd (async_step_init admins_config example_directory (Some alice_input)) =
         Inr (Finish (alice_input(''password'' := None)))
       \<or> snd (async_step_init admins_config example_directory (Some alice_input)) =
         Inr (Show_form ''init'' schema [(''base'', ''invalid_auth'')])
       \<or> snd (async_step_init admins_config example_directory (Some alice_input)) =
         Inr (Show_form ''init'' schema [(''base'', ''error'')])"
    by (rule conjunct1)
  from this H2
  have b0: "snd (async_step_init admins_config example_directory (Some alice_input)) =
         Inr (Finish (alice_input(''password'' := None)))
       \<or> snd (async_step_init admins_config example_directory (Some alice_input)) =
         Inr (Show_form ''init'' schema [(''base'', ''invalid_auth'')])
       \<or> snd (async_step_init admins_config example_directory (Some alice_input)) =
         Inr (Show_form ''init'' schema [(''base'', ''error'')])"
    by (rule mp)
  have b: "snd (async_step_init admins_config example_directory (Some alice_input)) =
         Inr (Show_form ''init'' schema [(''base'', ''invalid_auth'')])"
    using b0 denied by (simp add: async_step_init_snd [OF u p])
  from C4_step_init_outcomes [OF u p, of example_config unreachable_directory]
  have "\<forall>srv user pw auth x.
          Call (Connection srv user pw auth)
            \<in> set (fst (async_step_init example_config unreachable_directory (Some alice_input)))
          \<and> on_connection unreachable_directory srv user pw auth = Some x \<and> x \<noteq> LDAPBindError
          \<longrightarrow> snd (async_step_init example_config unreachable_directory (Some alice_input)) =
                Inl (Ldap3 x)"
    by (elim conjE)
  from this [rule_format, of example_server "''uid=svc,dc=example,dc=com''" "''svc-secret''"
      None LDAPSocketOpenError] h6 h7
  have c: "snd (async_step_init example_config unreachable_directory (Some alice_input)) =
         Inl (Ldap3 LDAPSocketOpenError)"
    by simp
  from C4_step_init_outcomes [OF u p, of out_of_range_config example_directory]
  have "\<forall>x. on_server example_directory (server_arguments out_of_range_config) = Some x
          \<and> x \<noteq> LDAPBindError
          \<longrightarrow> snd (async_step_init out_of_range_config example_directory (Some alice_input)) =
                Inl (Ldap3 x)"
    by (elim conjE)
  from this [rule_format, of LDAPInvalidPortError] h8
  have d: "snd (async_step_init out_of_range_config example_directory (Some alice_input)) =
         Inl (Ldap3 LDAPInvalidPortError)"
    by simp
  show ?thesis using u p h0 h6 h7 h8 a b c d by simp
qed

subsection \<open>C5: a search without entries\<close>

text \<open>
  C5: whenever the search is made and the directory answers it with no entry, the search
  was under the configured base DN with the filter \<open>(objectclass=person)\<close>,
  \<open>async_validate_login\<close> raises \<open>LdapError\<close> (not \<open>InvalidAuthError\<close>), and the login flow
  step shows the form again with the error code \<open>error\<close>.
\<close>

theorem C5_empty_search_is_ldap_error:
  assumes "Call (Search b f n t a) \<in> set (fst (async_validate_login cfg d username password))"
    and "on_search d b f n t a = Inr []"
  shows "b = base_dn cfg \<and> f = ''(objectclass=person)'' \<and>
     snd (async_validate_login cfg d username password) = Inl LdapError \<and>
     (\<forall>ui. ui ''username'' = Some username \<and> ui ''password'' = Some password \<longrightarrow>
        snd (async_step_init cfg d (Some ui)) =
          Inr (Show_form ''init'' schema [(''base'', ''error'')]))"
proof -
  from assms(1)
  have reached: "Call (Search b f n t a) \<in> set (fst (validate_login_try cfg d username password))"
    by (simp add: async_validate_login_calls)
  from search_reached [OF reached] assms(2)
  have bf: "b = base_dn cfg \<and> f = ''(objectclass=person)''"
    and "snd (validate_login_try cfg d username password) = Inl LdapError"
    by auto
  then have r: "snd (async_validate_login cfg d username password) = Inl LdapError"
    by (simp add: async_validate_login_snd)
  show ?thesis using bf r by (simp add: async_step_init_snd)
qed

text \<open>The login of alice against the directory without a person.\<close>

theorem C5_empty_search_is_ldap_error_witness:
  "Call (Search ''dc=example,dc=com'' ''(objectclass=person)'' 1 10
           [''uid'', ''displayName'', ''memberOf''])
     \<in> set (fst (async_validate_login example_config no_person_directory
                   ''alice'' ''alice-secret''))
   \<and> on_search no_person_directory ''dc=example,dc=com'' ''(objectclass=person)'' 1 10
           [''uid'', ''displayName'', ''memberOf''] = Inr []
   \<and> snd (async_validate_login example_config no_person_directory ''alice'' ''alice-secret'')
       = Inl LdapError
   \<and> snd (async_step_init example_config no_person_directory (Some alice_input))
       = Inr (Show_form ''init'' schema [(''base'', ''error'')])"
proof -
  have h1: "Call (Search ''dc=example,dc=com'' ''(objectclass=person)'' 1 10
           [''uid'', ''displayName'', ''memberOf''])
     \<in> set (fst (async_validate_login example_config no_person_directory
                   ''alice'' ''alice-secret''))"
    by (simp add: model_defs example_defs)
  have h2: "on_search no_person_directory ''dc=example,dc=com'' ''(objectclass=person)'' 1 10
           [''uid'', ''displayName'', ''memberOf''] = Inr []"
    by (simp add: example_defs)
  have h3: "alice_input ''username'' = Some ''alice'' \<and>
            alice_input ''password'' = Some ''alice-secret''"
    by (simp add: alice_input_def)
  from C5_empty_search_is_ldap_error [OF h1 h2] h1 h2 h3 show ?thesis by blast
qed

subsection \<open>C6: the group allow-list\<close>

text \<open>
  C6 says that the membership test is case-insensitive, so that the allow-list
  \<open>CN=Staff,DC=Example,DC=Com\<close> matches an entry whose group values are
  \<open>cn=staff,dc=example,dc=com\<close>, that an empty allow-list never denies, and that a failed
  test is a group denial with the canonical username in its detail. Line 167 reads the
  groups as \<open>memberOf.value\<close>, which for an entry with one group is that group as a
  string (lines 156 and 158 read the username and the display name in the same way), and
  the list comprehension of line 172 iterates its characters. On the example of the claim
  the two DNs are equal up to case, and alice, whose only group it is, is denied.
\<close>

theorem C6_single_group_is_compared_by_character:
  "async_validate_login staff_config example_directory ''alice'' ''alice-secret'' =
     ([Call (Connection example_server ''uid=svc,dc=example,dc=com'' ''svc-secret'' None),
       Call (Search ''dc=example,dc=com'' ''(objectclass=person)'' 1 10
               [''uid'', ''displayName'', ''memberOf'']),
       Log (Found_user ''Alice Example'' ''alice''),
       Log (Member_of ''alice'' ''cn=staff,dc=example,dc=com'')],
      Inl (InvalidAuthError (Some ''User alice is not a member of any of the required groups'')))
   \<and> allowed_group_dns staff_config = [''CN=Staff,DC=Example,DC=Com'']
   \<and> attribute_values alice_entry ''memberOf'' = [''cn=staff,dc=example,dc=com'']
   \<and> lower ''CN=Staff,DC=Example,DC=Com'' = lower ''cn=staff,dc=example,dc=com''"
  by (simp add: eval_defs)

subsection \<open>C7: START_TLS comes after the bind\<close>

text \<open>
  C7 says that in the mode \<open>starttls\<close> the upgrade of the connection is called after the
  bind has succeeded. Line 140 calls \<open>conn.starttls()\<close>; the method of the connection is
  \<open>start_tls\<close>, so after the bind has succeeded the login raises \<open>AttributeError\<close>: no
  upgrade is called, nothing is searched, and the exception leaves the login flow step.
\<close>

theorem C7_starttls_login_raises_attribute_error:
  "async_validate_login starttls_config example_directory ''alice'' ''alice-secret'' =
     ([Call (Connection starttls_server ''uid=svc,dc=example,dc=com'' ''svc-secret'' None)],
      Inl AttributeError)
   \<and> on_connection example_directory starttls_server ''uid=svc,dc=example,dc=com''
        ''svc-secret'' None = None
   \<and> snd (async_step_init starttls_config example_directory (Some alice_input)) =
        Inl AttributeError"
proof -
  have u: "alice_input ''username'' = Some ''alice''"
    and p: "alice_input ''password'' = Some ''alice-secret''"
    by (simp_all add: alice_input_def)
  have a: "async_validate_login starttls_config example_directory ''alice'' ''alice-secret'' =
     ([Call (Connection starttls_server ''uid=svc,dc=example,dc=com'' ''svc-secret'' None)],
      Inl AttributeError)"
    by (simp add: eval_defs)
  have b: "on_connection example_directory starttls_server ''uid=svc,dc=example,dc=com''
        ''svc-secret'' None = None"
    by (simp add: example_defs)
  show ?thesis using a b by (simp add: async_step_init_snd [OF u p])
qed

subsection \<open>C8: the login flow step\<close>

text \<open>
  C8: without input the step returns the form \<open>init\<close> that asks for exactly the fields
  \<open>username\<close> and \<open>password\<close>, with no error. With an input whose credentials
  \<open>async_validate_login\<close> accepts, it finishes with the input without its password: the
  payload has the username and no \<open>password\<close> key.
\<close>

theorem C8_login_flow_round_trip:
  "async_step_init cfg d None =
     ([], Inr (Show_form ''init'' [(''username'', Str), (''password'', Str)] []))
   \<and> (ui ''username'' = Some username \<and> ui ''password'' = Some password
        \<and> snd (async_validate_login cfg d username password) = Inr () \<longrightarrow>
        (\<exists>payload. snd (async_step_init cfg d (Some ui)) = Inr (Finish payload)
           \<and> payload = ui(''password'' := None)
           \<and> payload ''username'' = Some username
           \<and> payload ''password'' = None))"
  by (simp add: async_step_init_snd) (simp add: async_step_init_def return_def schema_def)

text \<open>The login of alice with her password.\<close>

theorem C8_login_flow_round_trip_witness:
  "alice_input ''username'' = Some ''alice'' \<and> alice_input ''password'' = Some ''alice-secret''
   \<and> snd (async_validate_login example_config example_directory ''alice'' ''alice-secret'') = Inr ()
   \<and> async_step_init example_config example_directory None =
     ([], Inr (Show_form ''init'' [(''username'', Str), (''password'', Str)] []))
   \<and> snd (async_step_init example_config example_directory (Some alice_input)) =
       Inr (Finish [''username'' \<mapsto> ''alice''])"
proof -
  have h1: "alice_input ''username'' = Some ''alice'' \<and> alice_input ''password'' = Some ''alice-secret''"
    by (simp add: alice_input_def)
  have h2: "snd (async_validate_login example_config example_directory ''alice'' ''alice-secret'') = Inr ()"
    by (simp add: eval_defs)
  have h3: "alice_input(''password'' := None) = [''username'' \<mapsto> ''alice'']"
    by (auto simp: alice_input_def)
  from C8_login_flow_round_trip [of example_config example_directory alice_input "''alice''" "''alice-secret''"] h1 h2
  have "async_step_init example_config example_directory None =
     ([], Inr (Show_form ''init'' [(''username'', Str), (''password'', Str)] []))"
    and "snd (async_step_init example_config example_directory (Some alice_input)) =
       Inr (Finish (alice_input(''password'' := None)))"
    by auto
  then show ?thesis using h1 h2 by (simp add: h3)
qed

subsection \<open>C9: one credential for each username\<close>

text \<open>
  C9: when every credential of the store has a username (each was created by this provider
  with one) and one of them has the username of the flow result, the first such credential
  of the store is returned and none is created; any other flow result with the same
  username gives the same credential; it is the given one when no other credential has
  that username.
\<close>

theorem C9_get_or_create_idempotent:
  assumes "\<forall>c\<in>set creds. data c ''username'' \<noteq> None"
    and "flow_result ''username'' = Some username"
    and "c0 \<in> set creds" and "data c0 ''username'' = Some username"
  shows "\<exists>c. List.find (\<lambda>c. data c ''username'' = Some username) creds = Some c
     \<and> c \<in> set creds \<and> data c ''username'' = Some username
     \<and> async_get_or_create_credentials creds flow_result = Inr (Existing c)
     \<and> (\<forall>fr. fr ''username'' = Some username \<longrightarrow>
           async_get_or_create_credentials creds fr = Inr (Existing c))
     \<and> ((\<forall>c'\<in>set creds. data c' ''username'' = Some username \<longrightarrow> c' = c0) \<longrightarrow> c = c0)"
proof -
  from assms(3,4) obtain c where c: "List.find (\<lambda>c. data c ''username'' = Some username) creds = Some c"
    by (cases "List.find (\<lambda>c. data c ''username'' = Some username) creds")
      (auto simp: find_None_iff)
  then have mem: "c \<in> set creds" and nm: "data c ''username'' = Some username"
    by (auto simp: find_Some_iff)
  have r: "async_get_or_create_credentials creds fr = Inr (Existing c)"
    if "fr ''username'' = Some username" for fr
    using that c by (simp add: async_get_or_create_credentials_def find_credentials_find [OF assms(1)])
  show ?thesis using c mem nm r assms(2) by blast
qed

text \<open>A store with the credentials of bob and alice, and two logins of alice.\<close>

theorem C9_get_or_create_idempotent_witness:
  "data bob_credential ''username'' \<noteq> None
   \<and> data alice_credential ''username'' \<noteq> None
   \<and> alice_input ''username'' = Some ''alice''
   \<and> alice_credential \<in> set [bob_credential, alice_credential]
   \<and> data alice_credential ''username'' = Some ''alice''
   \<and> async_get_or_create_credentials [bob_credential, alice_credential] alice_input =
       Inr (Existing alice_credential)
   \<and> async_get_or_create_credentials [bob_credential, alice_credential] [''username'' \<mapsto> ''alice''] =
       Inr (Existing alice_credential)"
proof -
  have h1: "\<forall>c\<in>set [bob_credential, alice_credential]. data c ''username'' \<noteq> None"
    by (simp add: bob_credential_def alice_credential_def)
  have h2: "alice_input ''username'' = Some ''alice''"
    by (simp add: alice_input_def)
  have h3: "alice_credential \<in> set [bob_credential, alice_credential]"
    by simp
  have h4: "data alice_credential ''username'' = Some ''alice''"
    by (simp add: alice_credential_def)
  have h5: "\<forall>c'\<in>set [bob_credential, alice_credential].
              data c' ''username'' = Some ''alice'' \<longrightarrow> c' = alice_credential"
    by (simp add: bob_credential_def alice_credential_def)
  have h6: "[''username'' \<mapsto> ''alice''] ''username'' = Some ''alice''"
    by simp
  from C9_get_or_create_idempotent [where creds = "[bob_credential, alice_credential]" and flow_result = alice_input
      and username = "''alice''" and ?c0.0 = alice_credential] h1 h2 h3 h4 h5 h6
  have "async_get_or_create_credentials [bob_credential, alice_credential] alice_input =
       Inr (Existing alice_credential)"
    and "async_get_or_create_credentials [bob_credential, alice_credential] [''username'' \<mapsto> ''alice''] =
       Inr (Existing alice_credential)"
    by blast+
  moreover have "data bob_credential ''username'' \<noteq> None"
    and "data alice_credential ''username'' \<noteq> None"
    by (simp_all add: bob_credential_def alice_credential_def)
  ultimately show ?thesis using h2 h3 h4 by blast
qed

subsection \<open>C10: the group check comes before the re-bind\<close>

text \<open>
  C10 says that, when the found entry fails a non-empty allow-list and the password of the
  request is wrong for it as well, the failure reported is the group denial, shown as
  \<open>invalid_auth\<close>. For an entry with no group value \<open>memberOf.value\<close> is \<open>None\<close>, and the
  list comprehension of line 172 raises \<open>TypeError\<close>: bob logs in with his password, the
  search finds carol, who is in no group, and the re-bind as carol with the password of
  bob would be rejected; the login raises \<open>TypeError\<close>, which leaves the login flow step.
\<close>

theorem C10_entry_without_groups_raises_type_error:
  "async_validate_login end_user_admins_config carol_directory ''bob'' ''bob-secret'' =
     ([Call (Connection example_server ''uid=bob,dc=example,dc=com'' ''bob-secret'' None),
       Call (Search ''dc=example,dc=com'' ''(objectclass=person)'' 1 10
               [''uid'', ''displayName'', ''memberOf'']),
       Log (Found_user ''Carol Example'' ''carol''),
       Log (Member_of ''carol'' ''None'')],
      Inl TypeError)
   \<and> allowed_group_dns end_user_admins_config = [''cn=admins,dc=example,dc=com'']
   \<and> attribute_values carol_entry ''memberOf'' = []
   \<and> on_rebind carol_directory (entry_dn carol_entry) ''bob-secret'' = Inr False
   \<and> snd (async_step_init end_user_admins_config carol_directory (Some bob_input)) =
        Inl TypeError"
proof -
  have u: "bob_input ''username'' = Some ''bob''"
    and p: "bob_input ''password'' = Some ''bob-secret''"
    by (simp_all add: bob_input_def)
  have a: "async_validate_login end_user_admins_config carol_directory ''bob'' ''bob-secret'' =
     ([Call (Connection example_server ''uid=bob,dc=example,dc=com'' ''bob-secret'' None),
       Call (Search ''dc=example,dc=com'' ''(objectclass=person)'' 1 10
               [''uid'', ''displayName'', ''memberOf'']),
       Log (Found_user ''Carol Example'' ''carol''),
       Log (Member_of ''carol'' ''None'')],
      Inl TypeError)"
    by (simp add: eval_defs)
  have b: "allowed_group_dns end_user_admins_config = [''cn=admins,dc=example,dc=com'']
     \<and> attribute_values carol_entry ''memberOf'' = []
     \<and> on_rebind carol_directory (entry_dn carol_entry) ''bob-secret'' = Inr False"
    by (simp add: example_defs)
  show ?thesis using a b by (simp add: async_step_init_snd [OF u p])
qed

end
